theory Spec2Isabelle
  imports Main "HOL-Library.Word"
begin

section \<open>The GameStream client of Moonlight-Switch (libgamestream/client.cpp)\<close>

text \<open>
  A shallow embedding of \<^verbatim>\<open>src/app/src/libgamestream/client.cpp\<close>: server discovery
  (\<^verbatim>\<open>load_serverinfo\<close>, \<^verbatim>\<open>load_server_status\<close>), the pairing handshake (\<^verbatim>\<open>gs_pair\<close>,
  \<^verbatim>\<open>gs_unpair\<close>) and the launch of a session (\<^verbatim>\<open>gs_start_app\<close>).

  The functions are C++ procedures that mutate a server descriptor, a stream
  configuration and a global error string, and talk to the network. Here each of them
  takes the state it reads and returns its \<^verbatim>\<open>int\<close> result together with the state it
  leaves behind. A \<^verbatim>\<open>goto cleanup\<close> or an early \<^verbatim>\<open>return\<close> is the branch of an
  \<open>if\<close> that returns; the code after it is the other branch.
\<close>

subsection \<open>What the file includes but does not define\<close>

text \<open>
  \<^verbatim>\<open>client.cpp\<close> includes \<^verbatim>\<open>errors.h\<close>, \<^verbatim>\<open>client.h\<close>, \<^verbatim>\<open>http.h\<close>, \<^verbatim>\<open>CryptoManager.hpp\<close>
  and \<^verbatim>\<open>Limelight.h\<close>; none of them is among the sources. Their constants and
  their pure functions are the fields of one record, which every function of the model
  takes as its first argument: a theorem about the model holds for every value of these
  fields that its hypotheses allow. A byte buffer (the class \<^verbatim>\<open>Data\<close>) and a
  \<^verbatim>\<open>std::string\<close> are both a \<open>string\<close>, a list of bytes.

  Modelled from the spec: \<^verbatim>\<open>Data\<close> (its source is missing) is a value type over a byte
  sequence; \<^verbatim>\<open>a.append(b)\<close> returns the concatenation and leaves \<^verbatim>\<open>a\<close> as it was, so
  it is \<open>a @ b\<close> here, and \<^verbatim>\<open>Data(p, n)\<close> holds the \<open>n\<close> bytes at \<open>p\<close>. \<^verbatim>\<open>hex\<close>,
  \<^verbatim>\<open>hex_to_bytes\<close> and \<^verbatim>\<open>subdata\<close> are fields of the record.
\<close>

type_synonym Data = string

record externals =
  \<comment> \<open>errors.h: the result codes\<close>
  GS_OK :: int
  GS_FAILED :: int
  GS_INVALID :: int
  GS_WRONG_STATE :: int
  GS_IO_ERROR :: int
  GS_NOT_SUPPORTED_4K :: int
  GS_UNSUPPORTED_VERSION :: int
  GS_ERROR :: int
  \<comment> \<open>client.h: the supported band of server generations\<close>
  MIN_SUPPORTED_GFE_VERSION :: int
  MAX_SUPPORTED_GFE_VERSION :: int
  \<comment> \<open>Limelight.h\<close>
  AUDIO_CONFIGURATION_STEREO :: int
  LiGetLaunchUrlQueryParameters :: string
  \<comment> \<open>the XML reader: the root's attributes and the text of a child element\<close>
  status_code :: "Data \<Rightarrow> string"
  status_message :: "Data \<Rightarrow> string"
  xml_text :: "Data \<Rightarrow> string \<Rightarrow> string option"
  xml_int :: "Data \<Rightarrow> string \<Rightarrow> int option"
  \<comment> \<open>the class Data\<close>
  hex :: "Data \<Rightarrow> Data"
  hex_to_bytes :: "Data \<Rightarrow> Data"
  subdata :: "Data \<Rightarrow> nat \<Rightarrow> nat \<Rightarrow> Data"
  \<comment> \<open>CryptoManager\<close>
  cert_data :: Data
  key_data :: Data
  create_AES_key_from_salt_SHA256 :: "Data \<Rightarrow> Data"
  create_AES_key_from_salt_SHA1 :: "Data \<Rightarrow> Data"
  aes_encrypt :: "Data \<Rightarrow> Data \<Rightarrow> Data"
  aes_decrypt :: "Data \<Rightarrow> Data \<Rightarrow> Data"
  SHA256_hash_data :: "Data \<Rightarrow> Data"
  SHA1_hash_data :: "Data \<Rightarrow> Data"
  signature :: "Data \<Rightarrow> Data"
  sign_data :: "Data \<Rightarrow> Data \<Rightarrow> Data"
  verify_signature :: "Data \<Rightarrow> Data \<Rightarrow> Data \<Rightarrow> bool"

subsection \<open>The state\<close>

datatype HTTPRequestTimeout = HTTPRequestTimeoutLow | HTTPRequestTimeoutMedium | HTTPRequestTimeoutLong

text \<open>
  The fields of \<^verbatim>\<open>SERVER_DATA\<close> (declared in client.h) that the modelled functions
  read or write. \<open>serverInfo_address\<close>, \<open>serverCodecModeSupport\<close> and
  \<open>rtspSessionUrl\<close> are the members of the embedded \<^verbatim>\<open>serverInfo\<close> struct. The two
  ports are 16 bits wide, as the \<^verbatim>\<open>unsigned short httpPort\<close> that \<^verbatim>\<open>gs_init\<close> stores
  into the descriptor; \<open>rtspSessionUrl\<close> is a pointer, \<open>None\<close> until a launch sets it.
\<close>

record SERVER_DATA =
  serverInfo_address :: string
  httpPort :: "16 word"
  httpsPort :: "16 word"
  paired :: bool
  currentGame :: int
  supports4K :: bool
  serverMajorVersion :: int
  serverInfoAppVersion :: string
  serverCodecModeSupport :: int
  gpuType :: string
  gsVersion :: string
  hostname :: string
  serverInfoGfeVersion :: string
  mac :: string
  rtspSessionUrl :: "string option"

record STREAM_CONFIGURATION =
  width :: int
  height :: int
  fps :: int
  audioConfiguration :: int
  remoteInputAesKey :: Data

text \<open>
  Everything outside the descriptor: the global \<^verbatim>\<open>_gs_error\<close>; the HTTP requests
  issued so far, in order, each with its timeout class; the network, which answers the
  \<open>n\<close>-th request for a URL with a result code and a body; and the random source that
  \<^verbatim>\<open>Data::random_bytes\<close> draws from.
\<close>

record world =
  gs_error_text :: string
  requests :: "(string \<times> HTTPRequestTimeout) list"
  network :: "nat \<Rightarrow> string \<Rightarrow> int \<times> Data"
  random_source :: "nat \<Rightarrow> char"
  random_used :: nat

subsection \<open>The C library: strings, \<^verbatim>\<open>atoi\<close>, \<^verbatim>\<open>snprintf\<close>\<close>

text \<open>A \<^verbatim>\<open>%s\<close> argument and \<^verbatim>\<open>strlen\<close> read a buffer up to its first NUL.\<close>

definition c_str :: "string \<Rightarrow> string" where
  "c_str s = takeWhile (\<lambda>c. c \<noteq> CHR 0x00) s"

definition isspace :: "char \<Rightarrow> bool" where
  "isspace c = (c \<in> set [CHR '' '', CHR 0x09, CHR 0x0A, CHR 0x0B, CHR 0x0C, CHR 0x0D])"

definition isdigit :: "char \<Rightarrow> bool" where
  "isdigit c = (48 \<le> (of_char c :: nat) \<and> (of_char c :: nat) \<le> 57)"

fun atoi_digits :: "int \<Rightarrow> string \<Rightarrow> int" where
  "atoi_digits acc [] = acc"
| "atoi_digits acc (c # cs) =
     (if isdigit c then atoi_digits (acc * 10 + (int (of_char c) - 48)) cs else acc)"

text \<open>
  The number that \<^verbatim>\<open>strtol(s, NULL, 10)\<close> reads: leading white space, an optional
  sign, then digits up to the first other character.
\<close>

definition decimal_value :: "string \<Rightarrow> int" where
  "decimal_value s =
     (case dropWhile isspace s of
        [] \<Rightarrow> 0
      | c # cs \<Rightarrow>
          if c = CHR ''-'' then - atoi_digits 0 cs
          else if c = CHR ''+'' then atoi_digits 0 cs
          else atoi_digits 0 (c # cs))"

text \<open>
  \<^verbatim>\<open>strtol\<close> returns a \<^verbatim>\<open>long\<close>, of 64 bits on the target, and saturates at
  \<^verbatim>\<open>LONG_MIN\<close> and \<^verbatim>\<open>LONG_MAX\<close>.
\<close>

definition strtol :: "string \<Rightarrow> int" where
  "strtol s = max (- (2 ^ 63)) (min (2 ^ 63 - 1) (decimal_value s))"

text \<open>
  \<^verbatim>\<open>atoi(s)\<close> is \<^verbatim>\<open>(int) strtol(s, NULL, 10)\<close>: the conversion to the 32-bit
  \<^verbatim>\<open>int\<close> keeps the low 32 bits, read as two's complement. So the \<^verbatim>\<open>int\<close> fields
  that \<^verbatim>\<open>load_serverinfo\<close> assigns hold values of the 32-bit range.
\<close>

definition atoi :: "string \<Rightarrow> int" where
  "atoi s = sint (word_of_int (strtol s) :: 32 word)"

text \<open>\<^verbatim>\<open>%u\<close>: the decimal digits of a number, most significant first.\<close>

function fmt_u :: "nat \<Rightarrow> string" where
  "fmt_u n =
     (if n < 10 then [''0123456789'' ! n]
      else fmt_u (n div 10) @ [''0123456789'' ! (n mod 10)])"
  by pat_completeness auto
termination
  by (relation "measure (\<lambda>n. n)") auto

declare fmt_u.simps [simp del]

text \<open>\<^verbatim>\<open>%d\<close> of an \<^verbatim>\<open>int\<close>.\<close>

definition fmt_d :: "int \<Rightarrow> string" where
  "fmt_d i = (if i < 0 then CHR ''-'' # fmt_u (nat (- i)) else fmt_u (nat i))"

text \<open>
  \<^verbatim>\<open>snprintf(url, sizeof(url), ...)\<close> with \<^verbatim>\<open>char url[4096]\<close>: the formatted text, cut
  to the 4095 bytes that fit in front of the terminating NUL.
\<close>

definition snprintf_url :: "string \<Rightarrow> string" where
  "snprintf_url s = take 4095 s"

definition unique_id :: string where
  "unique_id = ''0123456789ABCDEF''"

subsection \<open>The HTTP layer, the XML reader and the random source\<close>

text \<open>
  Modelled from the spec: \<^verbatim>\<open>http_request\<close> (http.h; its source is missing) issues a
  GET for the URL with a timeout class and returns a result code with the response
  body. The request is recorded; the code and the body are the network's. The spec
  names no other effect, and the model has none: the error string is left alone.
\<close>

definition http_request :: "world \<Rightarrow> string \<Rightarrow> HTTPRequestTimeout \<Rightarrow> int \<times> Data \<times> world" where
  "http_request w url timeout =
     (case network w (length (requests w)) url of
        (ret, body) \<Rightarrow> (ret, body, w\<lparr>requests := requests w
          @ [(url, timeout)]\<rparr>))"

definition gs_set_error :: "string \<Rightarrow> world \<Rightarrow> world" where
  "gs_set_error error w = w\<lparr>gs_error_text := error\<rparr>"

definition gs_error :: "world \<Rightarrow> string" where
  "gs_error w = (if gs_error_text w = [] then ''Unknown error...'' else gs_error_text w)"

text \<open>
  Modelled from the spec: \<^verbatim>\<open>xml_status\<close> (its source is missing) is \<^verbatim>\<open>GS_OK\<close> iff the
  root's \<^verbatim>\<open>status_code\<close> is "200"; when not, it is \<^verbatim>\<open>GS_ERROR\<close> and the
  \<^verbatim>\<open>status_message\<close> is captured for the error channel.
\<close>

definition xml_status :: "externals \<Rightarrow> world \<Rightarrow> Data \<Rightarrow> int \<times> world" where
  "xml_status X w data =
     (if status_code X data = ''200'' then (GS_OK X, w)
      else (GS_ERROR X, gs_set_error (status_message X data) w))"

text \<open>
  Modelled from the spec: \<^verbatim>\<open>xml_search\<close> (its source is missing) returns the text of
  the first child element of that name through its out parameter, and \<^verbatim>\<open>GS_INVALID\<close>
  if the element is missing; the out parameter then keeps its value. The third
  argument is the value of the out parameter before the call.
\<close>

definition xml_search :: "externals \<Rightarrow> Data \<Rightarrow> string \<Rightarrow> string \<Rightarrow> int \<times> string" where
  "xml_search X data node out =
     (case xml_text X data node of
        None \<Rightarrow> (GS_INVALID X, out)
      | Some t \<Rightarrow> (GS_OK X, t))"

text \<open>The overload with an \<^verbatim>\<open>int\<close> out parameter, for \<^verbatim>\<open>serverCodecModeSupport\<close>.\<close>

definition xml_search_int :: "externals \<Rightarrow> Data \<Rightarrow> string \<Rightarrow> int \<Rightarrow> int \<times> int" where
  "xml_search_int X data node out =
     (case xml_int X data node of
        None \<Rightarrow> (GS_INVALID X, out)
      | Some v \<Rightarrow> (GS_OK X, v))"

text \<open>\<^verbatim>\<open>Data::random_bytes(n)\<close>: the next \<open>n\<close> bytes of the random source.\<close>

definition random_bytes :: "nat \<Rightarrow> world \<Rightarrow> Data \<times> world" where
  "random_bytes n w =
     (map (random_source w) [random_used w ..< random_used w + n],
      w\<lparr>random_used := random_used w + n\<rparr>)"

subsection \<open>\<^verbatim>\<open>load_serverinfo\<close> and \<^verbatim>\<open>load_server_status\<close>\<close>

definition serverinfo_url :: "SERVER_DATA \<Rightarrow> bool \<Rightarrow> string" where
  "serverinfo_url server https =
     snprintf_url
       ((if https then ''https'' else ''http'') @ ''://'' @ c_str (serverInfo_address server)
         @ '':''
        @ fmt_u (unat (if https then httpsPort server else httpPort server))
        @ ''/serverinfo?uniqueid='' @ unique_id)"

text \<open>
  The assignments at the end of \<^verbatim>\<open>load_serverinfo\<close> (lines 140 to 154), reached when
  every element was found and the four required texts are not empty.
\<close>

definition serverinfo_assign :: "SERVER_DATA \<Rightarrow> string \<Rightarrow> string \<Rightarrow> string \<Rightarrow> string \<Rightarrow> SERVER_DATA" where
  "serverinfo_assign server pairedText currentGameText stateText httpsPortText =
     (let server = server\<lparr>paired := (pairedText = ''1'')\<rparr>;
          server = server\<lparr>currentGame := (if currentGameText = [] then 0 else atoi currentGameText)\<rparr>;
          server = server\<lparr>supports4K := (serverCodecModeSupport server \<noteq> 0)\<rparr>;
          server = server\<lparr>serverMajorVersion := atoi (serverInfoAppVersion server)\<rparr>;
          server = server\<lparr>httpsPort := word_of_int (atoi httpsPortText)\<rparr>;
          server = (if httpsPort server = 0 then server\<lparr>httpsPort := 47984\<rparr> else server)
      in if stateText = ''_SERVER_BUSY'' then server\<lparr>currentGame := 0\<rparr> else server)"

text \<open>
  The body of \<^verbatim>\<open>load_serverinfo\<close> from the first \<^verbatim>\<open>xml_search\<close> on (lines 96 to 155).
  \<^verbatim>\<open>ret\<close> is still \<^verbatim>\<open>GS_INVALID\<close> at every \<^verbatim>\<open>goto cleanup\<close>. Five searches write
  straight into the descriptor.
\<close>

definition serverinfo_parse :: "externals \<Rightarrow> Data \<Rightarrow> SERVER_DATA \<Rightarrow> int \<times> SERVER_DATA" where
  "serverinfo_parse X data server =
     (let ret = GS_INVALID X in
      case xml_search X data ''currentgame'' [] of (r, currentGameText) \<Rightarrow>
      if r \<noteq> GS_OK X then (ret, server) else
      case xml_search X data ''PairStatus'' [] of (r, pairedText) \<Rightarrow>
      if r \<noteq> GS_OK X then (ret, server) else
      case xml_search X data ''appversion'' (serverInfoAppVersion server) of (r, v) \<Rightarrow>
      let server = server\<lparr>serverInfoAppVersion := v\<rparr> in
      if r \<noteq> GS_OK X then (ret, server) else
      case xml_search X data ''state'' [] of (r, stateText) \<Rightarrow>
      if r \<noteq> GS_OK X then (ret, server) else
      case xml_search_int X data ''ServerCodecModeSupport'' (serverCodecModeSupport server) of (r, v) \<Rightarrow>
      let server = server\<lparr>serverCodecModeSupport := v\<rparr> in
      if r \<noteq> GS_OK X then (ret, server) else
      case xml_search X data ''gputype'' (gpuType server) of (r, v) \<Rightarrow>
      let server = server\<lparr>gpuType := v\<rparr> in
      if r \<noteq> GS_OK X then (ret, server) else
      case xml_search X data ''GsVersion'' (gsVersion server) of (r, v) \<Rightarrow>
      let server = server\<lparr>gsVersion := v\<rparr> in
      if r \<noteq> GS_OK X then (ret, server) else
      case xml_search X data ''hostname'' (hostname server) of (r, v) \<Rightarrow>
      let server = server\<lparr>hostname := v\<rparr> in
      if r \<noteq> GS_OK X then (ret, server) else
      case xml_search X data ''GfeVersion'' (serverInfoGfeVersion server) of (r, v) \<Rightarrow>
      let server = server\<lparr>serverInfoGfeVersion := v\<rparr> in
      if r \<noteq> GS_OK X then (ret, server) else
      case xml_search X data ''HttpsPort'' [] of (r, httpsPortText) \<Rightarrow>
      if r \<noteq> GS_OK X then (ret, server) else
      case xml_search X data ''mac'' (mac server) of (r, v) \<Rightarrow>
      let server = server\<lparr>mac := v\<rparr> in
      if r \<noteq> GS_OK X then (ret, server) else
      if currentGameText = [] \<or> pairedText = [] \<or> serverInfoAppVersion server = [] \<or> stateText = []
      then (ret, server)
      else (GS_OK X, serverinfo_assign server pairedText currentGameText stateText httpsPortText))"

definition load_serverinfo :: "externals \<Rightarrow> world \<Rightarrow> SERVER_DATA \<Rightarrow> bool \<Rightarrow> int \<times> SERVER_DATA \<times> world" where
  "load_serverinfo X w server https =
     (case http_request w (serverinfo_url server https) HTTPRequestTimeoutLow of (rc, data, w) \<Rightarrow>
      if rc \<noteq> GS_OK X then (GS_IO_ERROR X, server, w) else
      case xml_status X w data of (st, w) \<Rightarrow>
      if st = GS_ERROR X then (GS_ERROR X, server, w) else
      case serverinfo_parse X data server of (ret, server) \<Rightarrow> (ret, server, w))"

text \<open>
  The loop of \<^verbatim>\<open>load_server_status\<close>:
  \<^verbatim>\<open>for (i = 0; i < 2 && ret != GS_OK; i++) ret = load_serverinfo(server, i == 0);\<close>
\<close>

function serverinfo_loop :: "externals \<Rightarrow> nat \<Rightarrow> int \<Rightarrow> SERVER_DATA \<Rightarrow> world \<Rightarrow> int \<times> SERVER_DATA \<times> world" where
  "serverinfo_loop X i ret server w =
     (if i < 2 \<and> ret \<noteq> GS_OK X
      then case load_serverinfo X w server (i = 0) of
             (ret, server, w) \<Rightarrow> serverinfo_loop X (i + 1) ret server w
      else (ret, server, w))"
  by pat_completeness auto
termination
  by (relation "measure (\<lambda>(X, i, ret, server, w). 2 - i)") auto

declare serverinfo_loop.simps [simp del]

text \<open>The check of the server generation after the loop (lines 181 to 195).\<close>

definition version_gate :: "externals \<Rightarrow> int \<times> SERVER_DATA \<times> world \<Rightarrow> int \<times> SERVER_DATA \<times> world" where
  "version_gate X r =
     (case r of (ret, server, w) \<Rightarrow>
        if ret = GS_OK X then
          if serverMajorVersion server > MAX_SUPPORTED_GFE_VERSION X
          then (GS_UNSUPPORTED_VERSION X, server,
                gs_set_error (''Ensure you're running the latest version of ''
                  @ ''Moonlight-Switch or downgrade GeForce Experience and try again'') w)
          else if serverMajorVersion server < MIN_SUPPORTED_GFE_VERSION X
          then (GS_UNSUPPORTED_VERSION X, server,
                gs_set_error (''Moonlight-Switch requires a newer version of GeForce ''
                  @ ''Experience. Please upgrade GFE on your PC and try again.'') w)
          else (ret, server, w)
        else (ret, server, w))"

definition load_server_status :: "externals \<Rightarrow> world \<Rightarrow> SERVER_DATA \<Rightarrow> int \<times> SERVER_DATA \<times> world" where
  "load_server_status X w server =
     (if httpsPort server = 0
      then case load_serverinfo X w server False of
             (ret, server1, w1) \<Rightarrow>
               if ret \<noteq> GS_OK X then (ret, server1, w1)
               else version_gate X (serverinfo_loop X 0 (GS_INVALID X) server1 w1)
      else version_gate X (serverinfo_loop X 0 (GS_INVALID X) server w))"

subsection \<open>\<^verbatim>\<open>gs_unpair\<close> and the helpers of \<^verbatim>\<open>gs_pair\<close>\<close>

definition unpair_url :: "SERVER_DATA \<Rightarrow> string" where
  "unpair_url server =
     snprintf_url
       (''http://'' @ c_str (serverInfo_address server) @ '':'' @ fmt_u (unat (httpPort server))
        @ ''/unpair?uniqueid='' @ unique_id)"

definition gs_unpair :: "world \<Rightarrow> SERVER_DATA \<Rightarrow> int \<times> world" where
  "gs_unpair w server =
     (case http_request w (unpair_url server) HTTPRequestTimeoutLow of
        (ret, data, w) \<Rightarrow> (ret, w))"

text \<open>
  \<^verbatim>\<open>gs_pair_validate\<close>. The first test is written
  \<^verbatim>\<open>if ((ret = xml_status(data) != GS_OK))\<close>: the comparison binds tighter than the
  assignment, so \<^verbatim>\<open>ret\<close> receives the truth value of the comparison, 1 or 0, and the
  branch returns it. The second test has its parentheses around the assignment.
\<close>

definition gs_pair_validate :: "externals \<Rightarrow> world \<Rightarrow> Data \<Rightarrow> int \<times> string \<times> world" where
  "gs_pair_validate X w data =
     (let result = [] in
      case xml_status X w data of (st, w) \<Rightarrow>
      let ret = (of_bool (st \<noteq> GS_OK X) :: int) in
      if ret \<noteq> 0 then (ret, result, w) else
      case xml_search X data ''paired'' result of (ret, result) \<Rightarrow>
      if ret \<noteq> GS_OK X then (ret, result, w)
      else (ret, result, w))"

text \<open>
  \<^verbatim>\<open>gs_pair_cleanup\<close> hands back the code it was given; the result of
  \<^verbatim>\<open>gs_unpair\<close> is dropped.
\<close>

definition gs_pair_cleanup :: "externals \<Rightarrow> world \<Rightarrow> int \<Rightarrow> SERVER_DATA \<Rightarrow> int \<times> SERVER_DATA \<times> world" where
  "gs_pair_cleanup X w ret server =
     (if ret \<noteq> GS_OK X then (ret, server, snd (gs_unpair w server))
      else (ret, server, w))"

text \<open>
  The URL of a pairing request. The five \<^verbatim>\<open>snprintf\<close> calls of \<^verbatim>\<open>gs_pair\<close> share the
  format up to \<^verbatim>\<open>updateState=1&\<close>; the first four go to the HTTP port, the last to
  the HTTPS port.
\<close>

definition pair_url :: "bool \<Rightarrow> SERVER_DATA \<Rightarrow> string \<Rightarrow> string" where
  "pair_url https server query =
     snprintf_url
       ((if https then ''https://'' else ''http://'') @ c_str (serverInfo_address server) @ '':''
        @ fmt_u (unat (if https then httpsPort server else httpPort server))
        @ ''/pair?uniqueid='' @ unique_id @ ''&devicename=roth&updateState=1&'' @ query)"

text \<open>
  The two tests that follow every \<^verbatim>\<open>snprintf\<close> of \<^verbatim>\<open>gs_pair\<close>:
  \<^verbatim>\<open>if ((ret = http_request(url, &data, HTTPRequestTimeoutLong)) != GS_OK) return gs_pair_cleanup(...);\<close>
  \<^verbatim>\<open>if ((ret = gs_pair_validate(data, &result) != GS_OK)) return gs_pair_cleanup(...);\<close>
  In the second one \<^verbatim>\<open>ret\<close> is again the truth value of the comparison. \<open>Inl\<close> is a
  return from \<^verbatim>\<open>gs_pair\<close>; \<open>Inr\<close> carries on with the response and \<^verbatim>\<open>result\<close>
  (\<^verbatim>\<open>ret\<close> is then 0).
\<close>

definition pair_exchange :: "externals \<Rightarrow> world \<Rightarrow> SERVER_DATA \<Rightarrow> string
    \<Rightarrow> (int \<times> SERVER_DATA \<times> world) + (world \<times> Data \<times> string)" where
  "pair_exchange X w server url =
     (case http_request w url HTTPRequestTimeoutLong of (ret, data, w) \<Rightarrow>
      if ret \<noteq> GS_OK X then Inl (gs_pair_cleanup X w ret server) else
      case gs_pair_validate X w data of (v, result, w) \<Rightarrow>
      let ret = (of_bool (v \<noteq> GS_OK X) :: int) in
      if ret \<noteq> 0 then Inl (gs_pair_cleanup X w ret server)
      else Inr (w, data, result))"

subsection \<open>\<^verbatim>\<open>gs_pair\<close>, stage by stage\<close>

text \<open>
  The stages are the sections of \<^verbatim>\<open>gs_pair\<close> between its log messages
  "Start pairing stage #1" to "#5". Each stage either returns from \<^verbatim>\<open>gs_pair\<close>
  (\<open>Inl\<close>, with the value returned) or falls through to the next one (\<open>Inr\<close>), with
  the world and the local variables that are then in scope. A bound variable that has
  the name of a record field carries a prime.
\<close>

record locals1 =
  salted_pin :: Data
  plainCert :: Data

record locals2 = locals1 +
  aesKey :: Data
  hashLength :: nat
  randomChallenge :: Data
  challengeresponse :: string

record locals3 = locals2 +
  serverResponse :: Data
  serverChallenge :: Data
  clientSecret :: Data
  challengeRespHash :: Data
  pairingsecret :: string

definition gs_pair_stage1 :: "externals \<Rightarrow> world \<Rightarrow> SERVER_DATA \<Rightarrow> string
    \<Rightarrow> (int \<times> SERVER_DATA \<times> world) + (world \<times> locals1)" where
  "gs_pair_stage1 X w server pin =
     (case random_bytes 16 w of (salt, w) \<Rightarrow>
      let salted_pin' = salt @ c_str pin;
          url = pair_url False server
                  (''phrase=getservercert&salt='' @ c_str (hex X salt)
                   @ ''&clientcert='' @ c_str (hex X (cert_data X)))
      in (case pair_exchange X w server url of
           Inl r \<Rightarrow> Inl r
         | Inr (w, data, result) \<Rightarrow>
             (case xml_search X data ''plaincert'' result of (ret, result) \<Rightarrow>
                if ret \<noteq> GS_OK X then Inl (gs_pair_cleanup X w ret server)
                else Inr (w, \<lparr>salted_pin = salted_pin', plainCert = result\<rparr>))))"

definition gs_pair_stage2 :: "externals \<Rightarrow> world \<Rightarrow> SERVER_DATA \<Rightarrow> locals1
    \<Rightarrow> (int \<times> SERVER_DATA \<times> world) + (world \<times> locals2)" where
  "gs_pair_stage2 X w server l =
     (let (aesKey', hashLength') =
            (if serverMajorVersion server \<ge> 7
             then (create_AES_key_from_salt_SHA256 X (salted_pin l), 32)
             else (create_AES_key_from_salt_SHA1 X (salted_pin l), 20))
      in case random_bytes 16 w of (randomChallenge', w) \<Rightarrow>
      let encryptedChallenge = aes_encrypt X randomChallenge' aesKey';
          url = pair_url False server (''clientchallenge='' @ c_str (hex X encryptedChallenge))
      in (case pair_exchange X w server url of
           Inl r \<Rightarrow> Inl r
         | Inr (w, data, result) \<Rightarrow>
             (case xml_search X data ''challengeresponse'' result of (r, result) \<Rightarrow>
                if r \<noteq> GS_OK X then Inl (gs_pair_cleanup X w (GS_INVALID X) server)
                else Inr (w, \<lparr>salted_pin = salted_pin l, plainCert = plainCert l,
                               aesKey = aesKey', hashLength = hashLength',
                               randomChallenge = randomChallenge', challengeresponse = result\<rparr>))))"

definition gs_pair_stage3 :: "externals \<Rightarrow> world \<Rightarrow> SERVER_DATA \<Rightarrow> locals2
    \<Rightarrow> (int \<times> SERVER_DATA \<times> world) + (world \<times> locals3)" where
  "gs_pair_stage3 X w server l =
     (let encServerChallengeResp = hex_to_bytes X (challengeresponse l);
          decServerChallengeResp = aes_decrypt X encServerChallengeResp (aesKey l);
          serverResponse' = subdata X decServerChallengeResp 0 (hashLength l);
          serverChallenge' = subdata X decServerChallengeResp (hashLength l) 16
      in case random_bytes 16 w of (clientSecret', w) \<Rightarrow>
      let challengeRespHashInput = serverChallenge' @ signature X (cert_data X) @ clientSecret';
          challengeRespHash' =
            (if serverMajorVersion server \<ge> 7
             then SHA256_hash_data X challengeRespHashInput
             else SHA1_hash_data X challengeRespHashInput);
          challengeRespEncrypted = aes_encrypt X challengeRespHash' (aesKey l);
          url = pair_url False server
                  (''serverchallengeresp='' @ c_str (hex X challengeRespEncrypted))
      in (case pair_exchange X w server url of
           Inl r \<Rightarrow> Inl r
         | Inr (w, data, result) \<Rightarrow>
             (case xml_search X data ''pairingsecret'' result of (r, result) \<Rightarrow>
                if r \<noteq> GS_OK X then Inl (gs_pair_cleanup X w (GS_INVALID X) server)
                else Inr (w, \<lparr>salted_pin = salted_pin l, plainCert = plainCert l,
                               aesKey = aesKey l, hashLength = hashLength l,
                               randomChallenge = randomChallenge l,
                               challengeresponse = challengeresponse l,
                               serverResponse = serverResponse', serverChallenge = serverChallenge',
                               clientSecret = clientSecret', challengeRespHash = challengeRespHash',
                               pairingsecret = result\<rparr>))))"

text \<open>
  Stage 4 opens with the check of the server's signature. The hash
  \<^verbatim>\<open>serverChallengeRespHash\<close> that the source computes next is never read, and is left
  out.
\<close>

definition gs_pair_stage4 :: "externals \<Rightarrow> world \<Rightarrow> SERVER_DATA \<Rightarrow> locals3
    \<Rightarrow> (int \<times> SERVER_DATA \<times> world) + world" where
  "gs_pair_stage4 X w server l =
     (let serverSecretResp = hex_to_bytes X (pairingsecret l);
          serverSecret = subdata X serverSecretResp 0 16;
          serverSignature = subdata X serverSecretResp 16 256
      in if \<not> verify_signature X serverSecret serverSignature (hex_to_bytes X (plainCert l))
         then Inl (gs_pair_cleanup X (gs_set_error ''MITM attack detected'' w) (GS_FAILED X) server)
         else
           let clientPairingSecret = clientSecret l @ sign_data X (clientSecret l) (key_data X);
               url = pair_url False server
                       (''clientpairingsecret='' @ c_str (hex X clientPairingSecret))
           in case pair_exchange X w server url of
                Inl r \<Rightarrow> Inl r
              | Inr (w, data, result) \<Rightarrow> Inr w)"

definition gs_pair_stage5 :: "externals \<Rightarrow> world \<Rightarrow> SERVER_DATA \<Rightarrow> int \<times> SERVER_DATA \<times> world" where
  "gs_pair_stage5 X w server =
     (case pair_exchange X w server (pair_url True server ''phrase=pairchallenge'') of
        Inl r \<Rightarrow> r
      | Inr (w, data, result) \<Rightarrow> gs_pair_cleanup X w 0 (server\<lparr>paired := True\<rparr>))"

definition gs_pair :: "externals \<Rightarrow> world \<Rightarrow> SERVER_DATA \<Rightarrow> string \<Rightarrow> int \<times> SERVER_DATA \<times> world" where
  "gs_pair X w server pin =
     (if paired server then (GS_WRONG_STATE X, server, gs_set_error ''Already paired'' w)
      else if currentGame server \<noteq> 0
      then (GS_WRONG_STATE X, server,
            gs_set_error (''The computer is currently in a game. You must close the game ''
              @ ''before pairing'') w)
      else
        (case gs_pair_stage1 X w server pin of Inl r \<Rightarrow> r | Inr (w, l1) \<Rightarrow>
        (case gs_pair_stage2 X w server l1 of Inl r \<Rightarrow> r | Inr (w, l2) \<Rightarrow>
        (case gs_pair_stage3 X w server l2 of Inl r \<Rightarrow> r | Inr (w, l3) \<Rightarrow>
        (case gs_pair_stage4 X w server l3 of Inl r \<Rightarrow> r | Inr w \<Rightarrow>
         gs_pair_stage5 X w server)))))"

subsection \<open>\<^verbatim>\<open>gs_start_app\<close>\<close>

text \<open>The text that the \<^verbatim>\<open>snprintf\<close> of the launch branch formats, before it is cut.\<close>

definition launch_text :: "externals \<Rightarrow> SERVER_DATA \<Rightarrow> STREAM_CONFIGURATION \<Rightarrow> int \<Rightarrow> bool \<Rightarrow> bool
    \<Rightarrow> int \<Rightarrow> Data \<Rightarrow> int \<Rightarrow> string" where
  "launch_text X server config appId sops localaudio gamepad_mask rand rikeyid =
     (let channelCounnt =
            (if audioConfiguration config = AUDIO_CONFIGURATION_STEREO X then 2 else 6 :: int);
          mask' =
            (if audioConfiguration config = AUDIO_CONFIGURATION_STEREO X then 0x3 else 0xFC :: int);
          fps' = (if sops \<and> fps config > 60 then 60 else fps config)
      in ''https://'' @ c_str (serverInfo_address server) @ '':'' @ fmt_u (unat (httpsPort server))
         @ ''/launch?uniqueid='' @ unique_id @ ''&appid='' @ fmt_d appId
         @ ''&mode='' @ fmt_d (width config) @ ''x'' @ fmt_d (height config) @ ''x'' @ fmt_d fps'
         @ ''&additionalStates=1&sops='' @ fmt_d (of_bool sops)
         @ ''&rikey='' @ c_str (hex X rand) @ ''&rikeyid='' @ fmt_d rikeyid
         @ ''&localAudioPlayMode='' @ fmt_d (of_bool localaudio)
         @ ''&surroundAudioInfo='' @ fmt_d (push_bit 16 mask' + channelCounnt)
         @ ''&remoteControllersBitmap='' @ fmt_d gamepad_mask
         @ ''&gcmap='' @ fmt_d gamepad_mask
         @ c_str (LiGetLaunchUrlQueryParameters X))"

definition resume_text :: "externals \<Rightarrow> SERVER_DATA \<Rightarrow> Data \<Rightarrow> int \<Rightarrow> string" where
  "resume_text X server rand rikeyid =
     ''https://'' @ c_str (serverInfo_address server) @ '':'' @ fmt_u (unat (httpsPort server))
     @ ''/resume?uniqueid='' @ unique_id
     @ ''&rikey='' @ c_str (hex X rand) @ ''&rikeyid='' @ fmt_d rikeyid
     @ c_str (LiGetLaunchUrlQueryParameters X)"

text \<open>The URL of \<^verbatim>\<open>gs_start_app\<close> (lines 505 to 528): launch when no game runs, else resume.\<close>

definition start_app_url :: "externals \<Rightarrow> SERVER_DATA \<Rightarrow> STREAM_CONFIGURATION \<Rightarrow> int \<Rightarrow> bool \<Rightarrow> bool
    \<Rightarrow> int \<Rightarrow> Data \<Rightarrow> int \<Rightarrow> string" where
  "start_app_url X server config appId sops localaudio gamepad_mask rand rikeyid =
     snprintf_url
       (if currentGame server = 0
        then launch_text X server config appId sops localaudio gamepad_mask rand rikeyid
        else resume_text X server rand rikeyid)"

text \<open>
  The part of \<^verbatim>\<open>gs_start_app\<close> that reads the response (lines 536 to 553), entered
  with \<^verbatim>\<open>server->currentGame\<close> already set. The first test is again
  \<^verbatim>\<open>ret = xml_status(data) != GS_OK\<close>.
\<close>

definition start_app_response :: "externals \<Rightarrow> world \<Rightarrow> SERVER_DATA \<Rightarrow> Data \<Rightarrow> int \<times> SERVER_DATA \<times> world" where
  "start_app_response X w server data =
     (case xml_status X w data of (st, w) \<Rightarrow>
      let ret = (of_bool (st \<noteq> GS_OK X) :: int) in
      if ret \<noteq> 0 then (ret, server, w) else
      case xml_search X data ''gamesession'' [] of (ret, result) \<Rightarrow>
      if ret \<noteq> GS_OK X then (ret, server, w) else
      if result = ''0'' then (GS_FAILED X, server, w) else
      case xml_search X data ''sessionUrl0'' result of (r, result) \<Rightarrow>
      if r = GS_OK X then (ret, server\<lparr>rtspSessionUrl := Some result\<rparr>, w)
      else (ret, server, w))"

definition gs_start_app :: "externals \<Rightarrow> world \<Rightarrow> SERVER_DATA \<Rightarrow> STREAM_CONFIGURATION \<Rightarrow> int
    \<Rightarrow> bool \<Rightarrow> bool \<Rightarrow> int \<Rightarrow> int \<times> SERVER_DATA \<times> STREAM_CONFIGURATION \<times> world" where
  "gs_start_app X w server config appId sops localaudio gamepad_mask =
     (if height config \<ge> 2160 \<and> \<not> supports4K server
      then (GS_NOT_SUPPORTED_4K X, server, config, gs_set_error ''4K not supported'' w)
      else
        case random_bytes 16 w of (rand, w) \<Rightarrow>
        let config = config\<lparr>remoteInputAesKey := take 16 rand\<rparr>;
            rikeyid = 0;
            url = start_app_url X server config appId sops localaudio gamepad_mask rand rikeyid
        in case http_request w url HTTPRequestTimeoutLong of (ret, data, w) \<Rightarrow>
           if ret = GS_OK X
           then (case start_app_response X w (server\<lparr>currentGame := appId\<rparr>) data of
                   (ret, server, w) \<Rightarrow> (ret, server, config, w))
           else (ret, server, config, w))"

section \<open>Concrete scenarios\<close>

text \<open>
  Values for the missing headers and a small world, used to run the model. The result
  codes are 0 for success and negative for failures; the XML reader of the base
  scenario finds every element, with the text "1", in a response whose first three
  bytes are its status code. Each scenario changes what it needs.
\<close>

definition sample_externals :: externals where
  "sample_externals =
     \<lparr>GS_OK = 0, GS_FAILED = - 1, GS_INVALID = - 3, GS_WRONG_STATE = - 4, GS_IO_ERROR = - 5,
      GS_NOT_SUPPORTED_4K = - 6, GS_UNSUPPORTED_VERSION = - 7, GS_ERROR = - 9,
      MIN_SUPPORTED_GFE_VERSION = 3, MAX_SUPPORTED_GFE_VERSION = 7,
      AUDIO_CONFIGURATION_STEREO = 0,
      LiGetLaunchUrlQueryParameters = ''&corever=1'',
      status_code = (\<lambda>d. take 3 d),
      status_message = (\<lambda>d. drop 3 d),
      xml_text = (\<lambda>d node. Some ''1''),
      xml_int = (\<lambda>d node. Some 1),
      hex = (\<lambda>d. d),
      hex_to_bytes = (\<lambda>d. d),
      subdata = (\<lambda>d offset len. take len (drop offset d)),
      cert_data = ''cert'',
      key_data = ''key'',
      create_AES_key_from_salt_SHA256 = (\<lambda>d. ''k256''),
      create_AES_key_from_salt_SHA1 = (\<lambda>d. ''k1''),
      aes_encrypt = (\<lambda>d k. d),
      aes_decrypt = (\<lambda>d k. d),
      SHA256_hash_data = (\<lambda>d. ''h256''),
      SHA1_hash_data = (\<lambda>d. ''h1''),
      signature = (\<lambda>d. ''sig''),
      sign_data = (\<lambda>d k. ''signed''),
      verify_signature = (\<lambda>d s c. True)\<rparr>"

definition sample_server :: SERVER_DATA where
  "sample_server =
     \<lparr>serverInfo_address = ''192.168.1.2'', httpPort = 47989, httpsPort = 47984,
      paired = False, currentGame = 0, supports4K = False, serverMajorVersion = 7,
      serverInfoAppVersion = [], serverCodecModeSupport = 0, gpuType = [], gsVersion = [],
      hostname = [], serverInfoGfeVersion = [], mac = [], rtspSessionUrl = None\<rparr>"

text \<open>A network that answers every request with success and a body of status 200.\<close>

definition sample_world :: world where
  "sample_world =
     \<lparr>gs_error_text = [], requests = [], network = (\<lambda>n url. (0, ''200'')),
      random_source = (\<lambda>i. CHR ''r''), random_used = 0\<rparr>"

definition sample_config :: STREAM_CONFIGURATION where
  "sample_config =
     \<lparr>width = 3840, height = 2160, fps = 120, audioConfiguration = 0,
      remoteInputAesKey = replicate 16 (CHR 0x00)\<rparr>"

text \<open>A server info document whose \<^verbatim>\<open>state\<close> element is there but empty.\<close>

definition empty_state_externals :: externals where
  "empty_state_externals =
     sample_externals\<lparr>xml_text := (\<lambda>d node. if node = ''state'' then Some [] else Some ''7.1.431.0'')\<rparr>"

text \<open>A pairing response of status 200 that has no \<^verbatim>\<open>paired\<close> element.\<close>

definition missing_paired_externals :: externals where
  "missing_paired_externals =
     sample_externals\<lparr>xml_text := (\<lambda>d node. if node = ''paired'' then None else Some ''1'')\<rparr>"

text \<open>A network that answers every request with a body of status 404.\<close>

definition error_status_world :: world where
  "error_status_world = sample_world\<lparr>network := (\<lambda>n url. (0, ''404 Not Found''))\<rparr>"

text \<open>A network on which every request fails.\<close>

definition offline_world :: world where
  "offline_world = sample_world\<lparr>network := (\<lambda>n url. (- 5, []))\<rparr>"

text \<open>A signature check that rejects everything.\<close>

definition mitm_externals :: externals where
  "mitm_externals = sample_externals\<lparr>verify_signature := (\<lambda>d s c. False)\<rparr>"

text \<open>A document in which every element has the text "0".\<close>

definition zero_session_externals :: externals where
  "zero_session_externals = sample_externals\<lparr>xml_text := (\<lambda>d node. Some ''0'')\<rparr>"

text \<open>A 4K-capable server with an address of 4095 bytes.\<close>

definition long_address_server :: SERVER_DATA where
  "long_address_server =
     sample_server\<lparr>serverInfo_address := replicate 4095 (CHR ''a''), supports4K := True\<rparr>"

text \<open>A 4K-capable server with an address of 4000 bytes: the URL is cut in its tail.\<close>

definition medium_address_server :: SERVER_DATA where
  "medium_address_server =
     sample_server\<lparr>serverInfo_address := replicate 4000 (CHR ''a''), supports4K := True\<rparr>"

text \<open>
  Externals whose cryptographic functions write down what they were applied to, and a
  challenge response of 48 distinct bytes, so that the key, the hash and the offsets of a
  run can be read off its result.
\<close>

definition tagged_externals :: externals where
  "tagged_externals =
     sample_externals
       \<lparr>xml_text := (\<lambda>d node.
          if node = ''challengeresponse''
          then Some ''0123456789abcdefghijklmnopqrstuvwxyzABCDEFGHIJKL''
          else Some ''1''),
        create_AES_key_from_salt_SHA256 := (\<lambda>d. ''sha256-key('' @ d @ '')''),
        create_AES_key_from_salt_SHA1 := (\<lambda>d. ''sha1-key('' @ d @ '')''),
        aes_encrypt := (\<lambda>d k. ''enc('' @ d @ '','' @ k @ '')''),
        aes_decrypt := (\<lambda>d k. d),
        SHA256_hash_data := (\<lambda>d. ''sha256('' @ d @ '')''),
        SHA1_hash_data := (\<lambda>d. ''sha1('' @ d @ '')'')\<rparr>"

text \<open>A random source whose first three draws of 16 bytes can be told apart.\<close>

definition tagged_world :: world where
  "tagged_world =
     sample_world\<lparr>random_source :=
       (\<lambda>i. if i < 16 then CHR ''s'' else if i < 32 then CHR ''c'' else CHR ''k'')\<rparr>"

section \<open>Server discovery\<close>

subsection \<open>\<^verbatim>\<open>load_serverinfo\<close>\<close>

lemma serverinfo_parse_frame:
  assumes "serverinfo_parse X data server = (r, s')" and "r \<noteq> GS_OK X"
  shows "paired s' = paired server \<and> currentGame s' = currentGame server
    \<and> supports4K s' = supports4K server \<and> serverMajorVersion s' = serverMajorVersion server
    \<and> httpsPort s' = httpsPort server"
  using assms unfolding serverinfo_parse_def
  by (auto simp add: Let_def split: prod.splits if_splits)

lemma load_serverinfo_requests:
  "requests (snd (snd (load_serverinfo X w server https))) =
     requests w @ [(serverinfo_url server https, HTTPRequestTimeoutLow)]"
  unfolding load_serverinfo_def http_request_def xml_status_def gs_set_error_def
  by (auto split: prod.splits)

text \<open>
  C10. When \<^verbatim>\<open>load_serverinfo\<close> returns anything but \<^verbatim>\<open>GS_OK\<close>, the fields
  \<^verbatim>\<open>paired\<close>, \<^verbatim>\<open>currentGame\<close>, \<^verbatim>\<open>supports4K\<close>, \<^verbatim>\<open>serverMajorVersion\<close> and \<^verbatim>\<open>httpsPort\<close>
  of the descriptor are what they were before the call: they are assigned only on the
  path that returns \<^verbatim>\<open>GS_OK\<close>. The fields that \<^verbatim>\<open>xml_search\<close> writes directly may
  have changed; the scenario after the theorem is a failed call that has overwritten
  \<^verbatim>\<open>serverInfoAppVersion\<close>, \<^verbatim>\<open>gpuType\<close>, \<^verbatim>\<open>gsVersion\<close>, \<^verbatim>\<open>hostname\<close>,
  \<^verbatim>\<open>serverInfoGfeVersion\<close> and \<^verbatim>\<open>mac\<close>.
\<close>

theorem load_serverinfo_failure_keeps_decision_fields:
  assumes "fst (load_serverinfo X w server https) \<noteq> GS_OK X"
  shows "paired (fst (snd (load_serverinfo X w server https))) = paired server
    \<and> currentGame (fst (snd (load_serverinfo X w server https))) = currentGame server
    \<and> supports4K (fst (snd (load_serverinfo X w server https))) = supports4K server
    \<and> serverMajorVersion (fst (snd (load_serverinfo X w server https))) = serverMajorVersion server
    \<and> httpsPort (fst (snd (load_serverinfo X w server https))) = httpsPort server"
proof -
  obtain rc data w1 where h:
    "http_request w (serverinfo_url server https) HTTPRequestTimeoutLow = (rc, data, w1)"
    by (cases "http_request w (serverinfo_url server https) HTTPRequestTimeoutLow") auto
  obtain st w2 where x: "xml_status X w1 data = (st, w2)"
    by (cases "xml_status X w1 data") auto
  obtain r s' where p: "serverinfo_parse X data server = (r, s')"
    by (cases "serverinfo_parse X data server") auto
  show ?thesis
  proof (cases "rc \<noteq> GS_OK X \<or> st = GS_ERROR X")
    case True
    then show ?thesis using h x by (auto simp: load_serverinfo_def)
  next
    case False
    then have e: "load_serverinfo X w server https = (r, s', w2)"
      using h x p by (simp add: load_serverinfo_def)
    with assms have "r \<noteq> GS_OK X" by simp
    from serverinfo_parse_frame[OF p this] e show ?thesis by simp
  qed
qed

lemma empty_state_run:
  "load_serverinfo empty_state_externals sample_world sample_server False =
     (- 3,
      sample_server\<lparr>serverInfoAppVersion := ''7.1.431.0'', serverCodecModeSupport := 1,
        gpuType := ''7.1.431.0'', gsVersion := ''7.1.431.0'', hostname := ''7.1.431.0'',
        serverInfoGfeVersion := ''7.1.431.0'', mac := ''7.1.431.0''\<rparr>,
      sample_world\<lparr>requests := [(serverinfo_url sample_server False, HTTPRequestTimeoutLow)]\<rparr>)"
  by (simp add: load_serverinfo_def serverinfo_parse_def http_request_def xml_status_def
      xml_search_def xml_search_int_def empty_state_externals_def sample_externals_def
      sample_world_def)

theorem load_serverinfo_failure_keeps_decision_fields_witness:
  "fst (load_serverinfo empty_state_externals sample_world sample_server False)
     \<noteq> GS_OK empty_state_externals
   \<and> paired (fst (snd (load_serverinfo empty_state_externals sample_world sample_server False)))
       = paired sample_server
   \<and> currentGame (fst (snd (load_serverinfo empty_state_externals sample_world sample_server False)))
       = currentGame sample_server
   \<and> supports4K (fst (snd (load_serverinfo empty_state_externals sample_world sample_server False)))
       = supports4K sample_server
   \<and> serverMajorVersion (fst (snd (load_serverinfo empty_state_externals sample_world sample_server False)))
       = serverMajorVersion sample_server
   \<and> httpsPort (fst (snd (load_serverinfo empty_state_externals sample_world sample_server False)))
       = httpsPort sample_server
   \<and> serverInfoAppVersion (fst (snd (load_serverinfo empty_state_externals sample_world sample_server False)))
       \<noteq> serverInfoAppVersion sample_server
   \<and> mac (fst (snd (load_serverinfo empty_state_externals sample_world sample_server False)))
       \<noteq> mac sample_server"
proof -
  have failed: "fst (load_serverinfo empty_state_externals sample_world sample_server False)
      \<noteq> GS_OK empty_state_externals"
    by (simp add: empty_state_run) (simp add: empty_state_externals_def sample_externals_def)
  have overwritten:
    "serverInfoAppVersion (fst (snd (load_serverinfo empty_state_externals sample_world sample_server False)))
       \<noteq> serverInfoAppVersion sample_server
     \<and> mac (fst (snd (load_serverinfo empty_state_externals sample_world sample_server False)))
       \<noteq> mac sample_server"
    by (simp add: empty_state_run) (simp add: sample_server_def)
  from failed overwritten
    load_serverinfo_failure_keeps_decision_fields
      [of empty_state_externals sample_world sample_server False, OF failed]
  show ?thesis by blast
qed

subsection \<open>\<^verbatim>\<open>load_server_status\<close>\<close>

lemma version_gate_requests:
  "requests (snd (snd (version_gate X r))) = requests (snd (snd r))"
  by (cases r) (simp add: version_gate_def gs_set_error_def)

text \<open>With \<^verbatim>\<open>ret\<close> set to \<^verbatim>\<open>GS_INVALID\<close>, the loop is one or two calls.\<close>

lemma serverinfo_loop_unfold:
  assumes "GS_INVALID X \<noteq> GS_OK X"
  shows "serverinfo_loop X 0 (GS_INVALID X) server w =
     (if fst (load_serverinfo X w server True) = GS_OK X
      then load_serverinfo X w server True
      else load_serverinfo X (snd (snd (load_serverinfo X w server True)))
             (fst (snd (load_serverinfo X w server True))) False)"
proof -
  obtain r1 s1 w1 where a: "load_serverinfo X w server True = (r1, s1, w1)"
    by (cases "load_serverinfo X w server True") auto
  obtain r2 s2 w2 where b: "load_serverinfo X w1 s1 False = (r2, s2, w2)"
    by (cases "load_serverinfo X w1 s1 False") auto
  have two: "serverinfo_loop X (Suc (Suc 0)) r s v = (r, s, v)" for r s v
    by (simp add: serverinfo_loop.simps)
  have one: "serverinfo_loop X 1 r1 s1 w1 = (if r1 = GS_OK X then (r1, s1, w1) else (r2, s2, w2))"
    by (subst serverinfo_loop.simps) (simp add: b two)
  have "serverinfo_loop X 0 (GS_INVALID X) server w = serverinfo_loop X 1 r1 s1 w1"
    using assms by (subst serverinfo_loop.simps) (simp add: a)
  with one a b show ?thesis by simp
qed

text \<open>
  C5. \<^verbatim>\<open>load_server_status\<close>, for result codes with \<^verbatim>\<open>GS_INVALID\<close> different from
  \<^verbatim>\<open>GS_OK\<close>. If \<^verbatim>\<open>httpsPort\<close> is 0 it first calls \<^verbatim>\<open>load_serverinfo\<close> over HTTP, and
  when that fails the call is all it does and its result is returned. Otherwise it
  calls \<^verbatim>\<open>load_serverinfo\<close> over HTTPS and, only if that does not return \<^verbatim>\<open>GS_OK\<close>,
  once more over HTTP; the requests it adds to the log are these one or two. In every
  case at most three requests are added.
\<close>

theorem load_server_status_exchanges:
  assumes "GS_INVALID X \<noteq> GS_OK X"
  shows "(httpsPort server = 0 \<and> fst (load_serverinfo X w server False) \<noteq> GS_OK X \<longrightarrow>
            load_server_status X w server = load_serverinfo X w server False)
       \<and> (httpsPort server \<noteq> 0 \<or> fst (load_serverinfo X w server False) = GS_OK X \<longrightarrow>
            (let (server0, w0) =
                   (if httpsPort server = 0 then snd (load_serverinfo X w server False)
                    else (server, w));
                 first = load_serverinfo X w0 server0 True
             in load_server_status X w server =
                  version_gate X
                    (if fst first = GS_OK X then first
                     else load_serverinfo X (snd (snd first)) (fst (snd first)) False)
                \<and> requests (snd (snd (load_server_status X w server))) =
                    requests w0 @ (serverinfo_url server0 True, HTTPRequestTimeoutLow)
                      # (if fst first = GS_OK X then []
                         else [(serverinfo_url (fst (snd first)) False, HTTPRequestTimeoutLow)])))
       \<and> length (requests (snd (snd (load_server_status X w server)))) \<le> length (requests w) + 3"
proof -
  obtain r0 s0 w0 where a: "load_serverinfo X w server False = (r0, s0, w0)"
    by (cases "load_serverinfo X w server False") auto
  have w0: "requests w0 = requests w @ [(serverinfo_url server False, HTTPRequestTimeoutLow)]"
    using load_serverinfo_requests[of X w server False] a by simp
  have loop: "requests (snd (snd (serverinfo_loop X 0 (GS_INVALID X) s v))) =
      requests v @ (serverinfo_url s True, HTTPRequestTimeoutLow)
        # (if fst (load_serverinfo X v s True) = GS_OK X then []
           else [(serverinfo_url (fst (snd (load_serverinfo X v s True))) False,
                  HTTPRequestTimeoutLow)])" for s v
    by (simp add: serverinfo_loop_unfold[OF assms] load_serverinfo_requests)
  show ?thesis
  proof (cases "httpsPort server = 0")
    case True
    show ?thesis
    proof (cases "r0 = GS_OK X")
      case ok: True
      have "load_server_status X w server =
          version_gate X (serverinfo_loop X 0 (GS_INVALID X) s0 w0)"
        using True ok a by (simp add: load_server_status_def)
      then show ?thesis using True ok a w0
        by (simp add: Let_def version_gate_requests loop serverinfo_loop_unfold[OF assms]
            load_serverinfo_requests)
    next
      case False
      then have "load_server_status X w server = (r0, s0, w0)"
        using True a by (simp add: load_server_status_def)
      then show ?thesis using True False a w0 by simp
    qed
  next
    case False
    have "load_server_status X w server =
        version_gate X (serverinfo_loop X 0 (GS_INVALID X) server w)"
      using False by (simp add: load_server_status_def)
    then show ?thesis using False
      by (simp add: Let_def version_gate_requests loop serverinfo_loop_unfold[OF assms]
          load_serverinfo_requests)
  qed
qed

lemma offline_serverinfo:
  "load_serverinfo sample_externals offline_world server https =
     (- 5, server, offline_world\<lparr>requests := [(serverinfo_url server https, HTTPRequestTimeoutLow)]\<rparr>)"
  by (simp add: load_serverinfo_def http_request_def offline_world_def sample_world_def
      sample_externals_def)

lemma sample_serverinfo_ok:
  "fst (load_serverinfo sample_externals sample_world sample_server True) = 0"
  by (simp add: load_serverinfo_def serverinfo_parse_def http_request_def xml_status_def
      xml_search_def xml_search_int_def sample_externals_def sample_world_def)

theorem load_server_status_exchanges_witness:
  "GS_INVALID sample_externals \<noteq> GS_OK sample_externals
   \<and> httpsPort (sample_server\<lparr>httpsPort := 0\<rparr>) = 0
   \<and> fst (load_serverinfo sample_externals offline_world (sample_server\<lparr>httpsPort := 0\<rparr>) False)
        \<noteq> GS_OK sample_externals
   \<and> load_server_status sample_externals offline_world (sample_server\<lparr>httpsPort := 0\<rparr>) =
        load_serverinfo sample_externals offline_world (sample_server\<lparr>httpsPort := 0\<rparr>) False
   \<and> length (requests (snd (snd
        (load_server_status sample_externals offline_world (sample_server\<lparr>httpsPort := 0\<rparr>))))) = 1
   \<and> httpsPort sample_server \<noteq> 0
   \<and> requests (snd (snd (load_server_status sample_externals sample_world sample_server))) =
        [(serverinfo_url sample_server True, HTTPRequestTimeoutLow)]"
proof -
  have codes: "GS_INVALID sample_externals \<noteq> GS_OK sample_externals"
    by (simp add: sample_externals_def)
  have ok: "GS_OK sample_externals = 0" by (simp add: sample_externals_def)
  have port: "httpsPort sample_server \<noteq> 0" by (simp add: sample_server_def)
  have failed: "fst (load_serverinfo sample_externals offline_world (sample_server\<lparr>httpsPort := 0\<rparr>) False)
        \<noteq> GS_OK sample_externals"
    by (simp add: offline_serverinfo ok)
  note a = load_server_status_exchanges
    [OF codes, of "sample_server\<lparr>httpsPort := 0\<rparr>" offline_world]
  from a failed have fast:
    "load_server_status sample_externals offline_world (sample_server\<lparr>httpsPort := 0\<rparr>) =
        load_serverinfo sample_externals offline_world (sample_server\<lparr>httpsPort := 0\<rparr>) False"
    by simp
  note b = load_server_status_exchanges [OF codes, of sample_server sample_world]
  have empty: "requests sample_world = []" by (simp add: sample_world_def)
  from b port have
    "requests (snd (snd (load_server_status sample_externals sample_world sample_server))) =
        requests sample_world @ [(serverinfo_url sample_server True, HTTPRequestTimeoutLow)]"
    by (simp add: Let_def sample_serverinfo_ok ok version_gate_requests load_serverinfo_requests)
  then have two:
    "requests (snd (snd (load_server_status sample_externals sample_world sample_server))) =
        [(serverinfo_url sample_server True, HTTPRequestTimeoutLow)]"
    by (simp only: empty append_Nil)
  from codes failed fast port two show ?thesis
    by (simp add: offline_serverinfo)
qed

section \<open>Pairing\<close>

subsection \<open>The preconditions\<close>

text \<open>
  C8. Called with \<^verbatim>\<open>server.paired\<close> set, or with \<^verbatim>\<open>server.paired\<close> clear and
  \<^verbatim>\<open>server.currentGame\<close> not 0, \<^verbatim>\<open>gs_pair\<close> returns \<^verbatim>\<open>GS_WRONG_STATE\<close>. The descriptor
  is returned as it was, and of the world only the error string differs: no request is
  added to the log. The error string is "Already paired" in the first case and the
  advice to close the game in the second.
\<close>

theorem gs_pair_wrong_state:
  "(paired server \<longrightarrow>
      gs_pair X w server pin = (GS_WRONG_STATE X, server, w\<lparr>gs_error_text := ''Already paired''\<rparr>))
   \<and> (\<not> paired server \<and> currentGame server \<noteq> 0 \<longrightarrow>
      gs_pair X w server pin =
        (GS_WRONG_STATE X, server,
         w\<lparr>gs_error_text :=
             ''The computer is currently in a game. You must close the game before pairing''\<rparr>))"
  by (simp add: gs_pair_def gs_set_error_def)

subsection \<open>What a stage does to the request log\<close>

lemma gs_pair_cleanup_failed:
  "ret \<noteq> GS_OK X \<Longrightarrow> gs_pair_cleanup X w ret server =
     (ret, server, w\<lparr>requests := requests w
       @ [(unpair_url server, HTTPRequestTimeoutLow)]\<rparr>)"
  by (simp add: gs_pair_cleanup_def gs_unpair_def http_request_def split: prod.splits)

lemma pair_exchange_Inr:
  assumes "pair_exchange X w server url = Inr (w', data, result)"
  shows "requests w' = requests w @ [(url, HTTPRequestTimeoutLong)]
    \<and> network w' = network w \<and> random_source w' = random_source w \<and> random_used w' = random_used w
    \<and> network w (length (requests w)) url = (GS_OK X, data)"
  using assms
  by (auto simp: pair_exchange_def http_request_def gs_pair_validate_def xml_status_def
      gs_set_error_def Let_def split: prod.splits if_splits)

lemma pair_exchange_Inl:
  assumes "pair_exchange X w server url = Inl (ret, s, w')" and "GS_OK X = 0"
  shows "ret \<noteq> GS_OK X \<and> s = server
    \<and> requests w' = requests w
      @ [(url, HTTPRequestTimeoutLong), (unpair_url server, HTTPRequestTimeoutLow)]
    \<and> network w' = network w"
  using assms
  by (auto simp: pair_exchange_def http_request_def gs_pair_validate_def xml_status_def
      gs_set_error_def gs_pair_cleanup_def gs_unpair_def Let_def split: prod.splits if_splits)

lemma random_bytes_world:
  "random_bytes n w = (r, w') \<Longrightarrow> requests w' = requests w \<and> network w' = network w
     \<and> gs_error_text w' = gs_error_text w"
  by (auto simp: random_bytes_def)

lemma stage1_Inl:
  assumes "gs_pair_stage1 X w server pin = Inl (ret, s, w')" and "GS_OK X = 0"
  shows "ret \<noteq> GS_OK X \<and> s = server
    \<and> (\<exists>u. requests w' = requests w
      @ [(u, HTTPRequestTimeoutLong), (unpair_url server, HTTPRequestTimeoutLow)])"
proof -
  obtain salt w0 where r: "random_bytes 16 w = (salt, w0)" by (cases "random_bytes 16 w") auto
  let ?url = "pair_url False server
                  (''phrase=getservercert&salt='' @ c_str (hex X salt)
                   @ ''&clientcert='' @ c_str (hex X (cert_data X)))"
  show ?thesis
  proof (cases "pair_exchange X w0 server ?url")
    case (Inl a)
    then have "pair_exchange X w0 server ?url = Inl (ret, s, w')"
      using assms(1) r by (simp add: gs_pair_stage1_def Let_def)
    from pair_exchange_Inl[OF this assms(2)] random_bytes_world[OF r] show ?thesis by auto
  next
    case (Inr b)
    obtain w1 data result where b: "b = (w1, data, result)" by (cases b) auto
    from pair_exchange_Inr[OF Inr[unfolded b]] random_bytes_world[OF r]
    have q: "requests w1 = requests w @ [(?url, HTTPRequestTimeoutLong)]" by simp
    from assms(1) r Inr b q show ?thesis
      by (auto simp: gs_pair_stage1_def Let_def gs_pair_cleanup_failed split: prod.splits if_splits)
  qed
qed

lemma stage1_Inr:
  assumes "gs_pair_stage1 X w server pin = Inr (w', l)"
  shows "(\<exists>u. requests w' = requests w
    @ [(u, HTTPRequestTimeoutLong)]) \<and> network w' = network w"
proof -
  obtain salt w0 where r: "random_bytes 16 w = (salt, w0)" by (cases "random_bytes 16 w") auto
  let ?url = "pair_url False server
                  (''phrase=getservercert&salt='' @ c_str (hex X salt)
                   @ ''&clientcert='' @ c_str (hex X (cert_data X)))"
  from assms r obtain data result where "pair_exchange X w0 server ?url = Inr (w', data, result)"
    by (auto simp: gs_pair_stage1_def Let_def split: sum.splits prod.splits if_splits)
  from pair_exchange_Inr[OF this] random_bytes_world[OF r] show ?thesis by auto
qed

lemma stage2_Inl:
  assumes "gs_pair_stage2 X w server l = Inl (ret, s, w')" and "GS_OK X = 0" and "GS_INVALID X \<noteq> 0"
  shows "ret \<noteq> GS_OK X \<and> s = server
    \<and> (\<exists>u. requests w' = requests w
      @ [(u, HTTPRequestTimeoutLong), (unpair_url server, HTTPRequestTimeoutLow)])"
proof -
  obtain rc w0 where r: "random_bytes 16 w = (rc, w0)" by (cases "random_bytes 16 w") auto
  obtain url where u: "url = pair_url False server (''clientchallenge=''
    @ c_str (hex X (aes_encrypt X rc
          (if 7 \<le> serverMajorVersion server then create_AES_key_from_salt_SHA256 X (salted_pin l)
           else create_AES_key_from_salt_SHA1 X (salted_pin l)))))" by simp
  show ?thesis
  proof (cases "pair_exchange X w0 server url")
    case (Inl a)
    then have "pair_exchange X w0 server url = Inl (ret, s, w')"
      using assms(1) r u by (simp add: gs_pair_stage2_def Let_def split: if_splits)
    from pair_exchange_Inl[OF this assms(2)] random_bytes_world[OF r] show ?thesis by auto
  next
    case (Inr b)
    obtain w1 data result where b: "b = (w1, data, result)" by (cases b) auto
    from pair_exchange_Inr[OF Inr[unfolded b]] random_bytes_world[OF r]
    have q: "requests w1 = requests w @ [(url, HTTPRequestTimeoutLong)]" by simp
    from assms r Inr b q u show ?thesis
      by (auto simp: gs_pair_stage2_def Let_def gs_pair_cleanup_failed split: prod.splits if_splits)
  qed
qed

lemma stage2_Inr:
  assumes "gs_pair_stage2 X w server l = Inr (w', l')"
  shows "requests w' = requests w @
           [(pair_url False server
               (''clientchallenge=''
                 @ c_str (hex X (aes_encrypt X (randomChallenge l') (aesKey l')))),
             HTTPRequestTimeoutLong)]
    \<and> network w' = network w
    \<and> salted_pin l' = salted_pin l \<and> plainCert l' = plainCert l
    \<and> randomChallenge l' = fst (random_bytes 16 w)
    \<and> (if 7 \<le> serverMajorVersion server
        then aesKey l' = create_AES_key_from_salt_SHA256 X (salted_pin l) \<and> hashLength l' = 32
        else aesKey l' = create_AES_key_from_salt_SHA1 X (salted_pin l) \<and> hashLength l' = 20)"
proof -
  obtain rc w0 where r: "random_bytes 16 w = (rc, w0)" by (cases "random_bytes 16 w") auto
  obtain url where u: "url = pair_url False server (''clientchallenge=''
    @ c_str (hex X (aes_encrypt X rc
          (if 7 \<le> serverMajorVersion server then create_AES_key_from_salt_SHA256 X (salted_pin l)
           else create_AES_key_from_salt_SHA1 X (salted_pin l)))))" by simp
  from assms r u obtain data result where e: "pair_exchange X w0 server url = Inr (w', data, result)"
    by (auto simp: gs_pair_stage2_def Let_def split: sum.splits prod.splits if_splits)
  from pair_exchange_Inr[OF e] random_bytes_world[OF r] assms r u e show ?thesis
    by (auto simp: gs_pair_stage2_def Let_def split: sum.splits prod.splits if_splits)
qed

lemma stage3_Inl:
  assumes "gs_pair_stage3 X w server l = Inl (ret, s, w')" and "GS_OK X = 0" and "GS_INVALID X \<noteq> 0"
  shows "ret \<noteq> GS_OK X \<and> s = server
    \<and> (\<exists>u. requests w' = requests w
      @ [(u, HTTPRequestTimeoutLong), (unpair_url server, HTTPRequestTimeoutLow)])"
proof -
  obtain cs w0 where r: "random_bytes 16 w = (cs, w0)" by (cases "random_bytes 16 w") auto
  obtain url where u: "url = pair_url False server (''serverchallengeresp=''
    @ c_str (hex X (aes_encrypt X
      (if 7 \<le> serverMajorVersion server
       then SHA256_hash_data X (subdata X (aes_decrypt X (hex_to_bytes X (challengeresponse l)) (aesKey l)) (hashLength l) 16
              @ signature X (cert_data X) @ cs)
       else SHA1_hash_data X (subdata X (aes_decrypt X (hex_to_bytes X (challengeresponse l)) (aesKey l)) (hashLength l) 16
              @ signature X (cert_data X) @ cs))
      (aesKey l))))" by simp
  show ?thesis
  proof (cases "pair_exchange X w0 server url")
    case (Inl a)
    then have "pair_exchange X w0 server url = Inl (ret, s, w')"
      using assms(1) r u by (simp add: gs_pair_stage3_def Let_def split: if_splits)
    from pair_exchange_Inl[OF this assms(2)] random_bytes_world[OF r] show ?thesis by auto
  next
    case (Inr b)
    obtain w1 data result where b: "b = (w1, data, result)" by (cases b) auto
    from pair_exchange_Inr[OF Inr[unfolded b]] random_bytes_world[OF r]
    have q: "requests w1 = requests w @ [(url, HTTPRequestTimeoutLong)]" by simp
    from assms r Inr b q u show ?thesis
      by (auto simp: gs_pair_stage3_def Let_def gs_pair_cleanup_failed split: prod.splits if_splits)
  qed
qed

lemma stage3_Inr:
  assumes "gs_pair_stage3 X w server l = Inr (w', l')"
  shows "requests w' = requests w @
           [(pair_url False server
               (''serverchallengeresp=''
                 @ c_str (hex X (aes_encrypt X (challengeRespHash l') (aesKey l)))),
             HTTPRequestTimeoutLong)]
    \<and> network w' = network w
    \<and> plainCert l' = plainCert l \<and> aesKey l' = aesKey l \<and> hashLength l' = hashLength l
    \<and> randomChallenge l' = randomChallenge l
    \<and> clientSecret l' = fst (random_bytes 16 w)
    \<and> serverResponse l' =
        subdata X (aes_decrypt X (hex_to_bytes X (challengeresponse l)) (aesKey l)) 0 (hashLength l)
    \<and> serverChallenge l' =
        subdata X (aes_decrypt X (hex_to_bytes X (challengeresponse l)) (aesKey l)) (hashLength l) 16
    \<and> challengeRespHash l' =
        (if 7 \<le> serverMajorVersion server
         then SHA256_hash_data X (serverChallenge l' @ signature X (cert_data X) @ clientSecret l')
         else SHA1_hash_data X (serverChallenge l' @ signature X (cert_data X) @ clientSecret l'))"
proof -
  obtain cs w0 where r: "random_bytes 16 w = (cs, w0)" by (cases "random_bytes 16 w") auto
  obtain url where u: "url = pair_url False server (''serverchallengeresp=''
    @ c_str (hex X (aes_encrypt X
      (if 7 \<le> serverMajorVersion server
       then SHA256_hash_data X (subdata X (aes_decrypt X (hex_to_bytes X (challengeresponse l)) (aesKey l)) (hashLength l) 16
              @ signature X (cert_data X) @ cs)
       else SHA1_hash_data X (subdata X (aes_decrypt X (hex_to_bytes X (challengeresponse l)) (aesKey l)) (hashLength l) 16
              @ signature X (cert_data X) @ cs))
      (aesKey l))))" by simp
  from assms r u obtain data result where e: "pair_exchange X w0 server url = Inr (w', data, result)"
    by (auto simp: gs_pair_stage3_def Let_def split: sum.splits prod.splits if_splits)
  from pair_exchange_Inr[OF e] random_bytes_world[OF r] assms r u e show ?thesis
    by (auto simp: gs_pair_stage3_def Let_def split: sum.splits prod.splits if_splits)
qed

lemma stage4_MITM:
  assumes "\<not> verify_signature X (subdata X (hex_to_bytes X (pairingsecret l)) 0 16)
             (subdata X (hex_to_bytes X (pairingsecret l)) 16 256) (hex_to_bytes X (plainCert l))"
    and "GS_FAILED X \<noteq> GS_OK X"
  shows "gs_pair_stage4 X w server l =
     Inl (GS_FAILED X, server,
          w\<lparr>gs_error_text := ''MITM attack detected'',
            requests := requests w @ [(unpair_url server, HTTPRequestTimeoutLow)]\<rparr>)"
  using assms by (simp add: gs_pair_stage4_def Let_def gs_pair_cleanup_failed gs_set_error_def)

lemma stage4_Inl:
  assumes "gs_pair_stage4 X w server l = Inl (ret, s, w')" and "GS_OK X = 0" and "GS_FAILED X \<noteq> 0"
  shows "ret \<noteq> GS_OK X \<and> s = server
    \<and> (\<exists>evs. requests w' = requests w @ evs
      @ [(unpair_url server, HTTPRequestTimeoutLow)]
          \<and> (\<forall>e \<in> set evs. snd e = HTTPRequestTimeoutLong))"
proof (cases "verify_signature X (subdata X (hex_to_bytes X (pairingsecret l)) 0 16)
             (subdata X (hex_to_bytes X (pairingsecret l)) 16 256) (hex_to_bytes X (plainCert l))")
  case False
  with assms stage4_MITM[OF False, of w server] show ?thesis by auto
next
  case True
  let ?url = "pair_url False server
      (''clientpairingsecret='' @ c_str (hex X (clientSecret l
        @ sign_data X (clientSecret l) (key_data X))))"
  from assms(1) True have "pair_exchange X w server ?url = Inl (ret, s, w')"
    by (auto simp: gs_pair_stage4_def Let_def split: sum.splits prod.splits)
  from pair_exchange_Inl[OF this assms(2)] show ?thesis
    by (auto intro!: exI[of _ "[(?url, HTTPRequestTimeoutLong)]"])
qed

lemma stage4_Inr:
  assumes "gs_pair_stage4 X w server l = Inr w'"
  shows "(\<exists>u. requests w' = requests w
    @ [(u, HTTPRequestTimeoutLong)]) \<and> network w' = network w"
proof -
  let ?url = "pair_url False server
      (''clientpairingsecret='' @ c_str (hex X (clientSecret l
        @ sign_data X (clientSecret l) (key_data X))))"
  from assms obtain data result where "pair_exchange X w server ?url = Inr (w', data, result)"
    by (auto simp: gs_pair_stage4_def Let_def split: sum.splits prod.splits if_splits)
  from pair_exchange_Inr[OF this] show ?thesis by auto
qed

lemma stage5_cases:
  assumes "gs_pair_stage5 X w server = (ret, s, w')" and "GS_OK X = 0"
  shows "(ret \<noteq> GS_OK X \<and> s = server
          \<and> (\<exists>u. requests w' = requests w
            @ [(u, HTTPRequestTimeoutLong), (unpair_url server, HTTPRequestTimeoutLow)]))
       \<or> (ret = GS_OK X \<and> s = server\<lparr>paired := True\<rparr>
          \<and> (\<exists>u. requests w' = requests w @ [(u, HTTPRequestTimeoutLong)]))"
proof (cases "pair_exchange X w server (pair_url True server ''phrase=pairchallenge'')")
  case (Inl a)
  with assms(1) have "pair_exchange X w server (pair_url True server ''phrase=pairchallenge'') = Inl (ret, s, w')"
    by (simp add: gs_pair_stage5_def)
  from pair_exchange_Inl[OF this assms(2)] show ?thesis by auto
next
  case (Inr b)
  obtain w1 data result where b: "b = (w1, data, result)" by (cases b) auto
  from pair_exchange_Inr[OF Inr[unfolded b]] assms Inr b show ?thesis
    by (auto simp: gs_pair_stage5_def gs_pair_cleanup_def)
qed


subsection \<open>The outcomes of \<^verbatim>\<open>gs_pair\<close>\<close>

text \<open>
  Past the preconditions, and for result codes with \<^verbatim>\<open>GS_OK\<close> = 0 and \<^verbatim>\<open>GS_INVALID\<close>
  and \<^verbatim>\<open>GS_FAILED\<close> different from it, a run of \<^verbatim>\<open>gs_pair\<close> ends in one of two ways.
  Either it returns a code other than \<^verbatim>\<open>GS_OK\<close>, the descriptor is untouched, and the
  requests it issued are pairing requests (timeout class Long) followed by exactly one
  request of \<^verbatim>\<open>gs_unpair\<close> (the unpair URL, timeout class Low). Or it returns
  \<^verbatim>\<open>GS_OK\<close>, \<^verbatim>\<open>paired\<close> is set, and it issued the five pairing requests and nothing else.
\<close>

lemma gs_pair_outcomes:
  assumes run: "gs_pair X w server pin = (ret, s, w')"
    and pre: "\<not> paired server" "currentGame server = 0"
    and codes: "GS_OK X = 0" "GS_INVALID X \<noteq> 0" "GS_FAILED X \<noteq> 0"
  shows "(ret \<noteq> GS_OK X \<and> s = server
          \<and> (\<exists>evs. requests w' = requests w @ evs
            @ [(unpair_url server, HTTPRequestTimeoutLow)]
                \<and> (\<forall>e \<in> set evs. snd e = HTTPRequestTimeoutLong)))
       \<or> (ret = GS_OK X \<and> s = server\<lparr>paired := True\<rparr>
          \<and> (\<exists>evs. requests w' = requests w @ evs \<and> length evs = 5
                \<and> (\<forall>e \<in> set evs. snd e = HTTPRequestTimeoutLong)))"
proof (cases "gs_pair_stage1 X w server pin")
  case (Inl a)
  with run pre have "gs_pair_stage1 X w server pin = Inl (ret, s, w')" by (simp add: gs_pair_def)
  from stage1_Inl[OF this codes(1)] show ?thesis
    by (auto intro: exI[of _ "[(u, HTTPRequestTimeoutLong)]" for u])
next
  case (Inr b1)
  obtain w1 l1 where b1: "b1 = (w1, l1)" by (cases b1) auto
  from stage1_Inr[OF Inr[unfolded b1]] obtain u1 where
    q1: "requests w1 = requests w @ [(u1, HTTPRequestTimeoutLong)]" by auto
  show ?thesis
  proof (cases "gs_pair_stage2 X w1 server l1")
    case (Inl a)
    with run pre Inr b1 have "gs_pair_stage2 X w1 server l1 = Inl (ret, s, w')"
      by (simp add: gs_pair_def)
    from stage2_Inl[OF this codes(1,2)] q1 show ?thesis
      by (auto intro: exI[of _ "[(u1, HTTPRequestTimeoutLong), (u, HTTPRequestTimeoutLong)]" for u])
  next
    case s2: (Inr b2)
    obtain w2 l2 where b2: "b2 = (w2, l2)" by (cases b2) auto
    from stage2_Inr[OF s2[unfolded b2]] q1 obtain u2 where
      q2: "requests w2 = requests w @ [(u1, HTTPRequestTimeoutLong), (u2, HTTPRequestTimeoutLong)]"
      by auto
    show ?thesis
    proof (cases "gs_pair_stage3 X w2 server l2")
      case (Inl a)
      with run pre Inr b1 s2 b2 have "gs_pair_stage3 X w2 server l2 = Inl (ret, s, w')"
        by (simp add: gs_pair_def)
      from stage3_Inl[OF this codes(1,2)] q2 show ?thesis
        by (auto intro: exI[of _ "[(u1, HTTPRequestTimeoutLong), (u2, HTTPRequestTimeoutLong),
              (u, HTTPRequestTimeoutLong)]" for u])
    next
      case s3: (Inr b3)
      obtain w3 l3 where b3: "b3 = (w3, l3)" by (cases b3) auto
      from stage3_Inr[OF s3[unfolded b3]] q2 obtain u3 where
        q3: "requests w3 = requests w @ [(u1, HTTPRequestTimeoutLong), (u2, HTTPRequestTimeoutLong),
               (u3, HTTPRequestTimeoutLong)]"
        by auto
      show ?thesis
      proof (cases "gs_pair_stage4 X w3 server l3")
        case (Inl a)
        with run pre Inr b1 s2 b2 s3 b3 have "gs_pair_stage4 X w3 server l3 = Inl (ret, s, w')"
          by (simp add: gs_pair_def)
        from stage4_Inl[OF this codes(1,3)] obtain evs where
          e: "ret \<noteq> GS_OK X" "s = server"
             "requests w' = requests w3 @ evs @ [(unpair_url server, HTTPRequestTimeoutLow)]"
             "\<forall>e \<in> set evs. snd e = HTTPRequestTimeoutLong" by auto
        from e q3 show ?thesis
          by (auto intro!: exI[of _ "[(u1, HTTPRequestTimeoutLong), (u2, HTTPRequestTimeoutLong),
              (u3, HTTPRequestTimeoutLong)] @ evs"])
      next
        case s4: (Inr w4)
        from stage4_Inr[OF s4] q3 obtain u4 where
          q4: "requests w4 = requests w
            @ [(u1, HTTPRequestTimeoutLong), (u2, HTTPRequestTimeoutLong),
                 (u3, HTTPRequestTimeoutLong), (u4, HTTPRequestTimeoutLong)]"
          by auto
        from run pre Inr b1 s2 b2 s3 b3 s4 have "gs_pair_stage5 X w4 server = (ret, s, w')"
          by (simp add: gs_pair_def)
        from stage5_cases[OF this codes(1)] q4 show ?thesis
          by (auto intro: exI[of _ "[(u1, HTTPRequestTimeoutLong), (u2, HTTPRequestTimeoutLong),
              (u3, HTTPRequestTimeoutLong), (u4, HTTPRequestTimeoutLong), (u, HTTPRequestTimeoutLong)]" for u])
      qed
    qed
  qed
qed


subsection \<open>The code returned when a validation fails\<close>

lemma gs_pair_validate_status:
  assumes "status_code X data \<noteq> ''200''" and "GS_ERROR X \<noteq> GS_OK X"
  shows "gs_pair_validate X w data = (1, [], gs_set_error (status_message X data) w)"
  using assms by (simp add: gs_pair_validate_def xml_status_def)

lemma gs_pair_validate_missing:
  assumes "status_code X data = ''200''" and "xml_text X data ''paired'' = None"
  shows "gs_pair_validate X w data = (GS_INVALID X, [], w)"
  using assms by (simp add: gs_pair_validate_def xml_status_def xml_search_def)

lemma pair_exchange_validate_failed:
  assumes "network w (length (requests w)) url = (GS_OK X, data)"
    and "gs_pair_validate X (w\<lparr>requests := requests w
      @ [(url, HTTPRequestTimeoutLong)]\<rparr>) data = (v, result, w1)"
    and "v \<noteq> GS_OK X" and "GS_OK X \<noteq> 1"
  shows "pair_exchange X w server url =
     Inl (1, server, w1\<lparr>requests := requests w1
       @ [(unpair_url server, HTTPRequestTimeoutLow)]\<rparr>)"
  using assms by (simp add: pair_exchange_def http_request_def gs_pair_cleanup_failed)

lemma gs_pair_stage1_exchange_Inl:
  assumes "pair_exchange X (snd (random_bytes 16 w)) server
             (pair_url False server
                (''phrase=getservercert&salt='' @ c_str (hex X (fst (random_bytes 16 w)))
                 @ ''&clientcert='' @ c_str (hex X (cert_data X)))) = Inl r"
    and "\<not> paired server" and "currentGame server = 0"
  shows "gs_pair X w server pin = r"
  using assms by (cases "random_bytes 16 w") (simp add: gs_pair_def gs_pair_stage1_def Let_def)


text \<open>
  C2. A response whose \<^verbatim>\<open>status_code\<close> is not "200" makes \<^verbatim>\<open>xml_status\<close> yield
  \<^verbatim>\<open>GS_ERROR\<close>, but that is not the code that reaches the caller of \<^verbatim>\<open>gs_pair\<close>. For
  result codes with \<^verbatim>\<open>GS_OK\<close> = 0 and \<^verbatim>\<open>GS_ERROR\<close> not 0: \<^verbatim>\<open>gs_pair_validate\<close> returns 1,
  the two tests that follow every pairing request return 1 from \<^verbatim>\<open>gs_pair\<close> (after the
  unpair request), and so a run whose first response has such a status returns 1.
\<close>

theorem gs_pair_status_error_returns_one:
  assumes codes: "GS_OK X = 0" "GS_ERROR X \<noteq> 0"
    and bad: "status_code X data \<noteq> ''200''"
  shows "fst (xml_status X w data) = GS_ERROR X
    \<and> fst (gs_pair_validate X w data) = 1
    \<and> (network w (length (requests w)) url = (GS_OK X, data) \<longrightarrow>
         pair_exchange X w server url =
           Inl (1, server,
                w\<lparr>gs_error_text := status_message X data,
                  requests := requests w @ [(url, HTTPRequestTimeoutLong),
                                            (unpair_url server, HTTPRequestTimeoutLow)]\<rparr>))
    \<and> (\<not> paired server \<and> currentGame server = 0
        \<and> network w (length (requests w))
             (pair_url False server
                (''phrase=getservercert&salt='' @ c_str (hex X (fst (random_bytes 16 w)))
                 @ ''&clientcert=''
                   @ c_str (hex X (cert_data X)))) = (GS_OK X, data) \<longrightarrow>
         fst (gs_pair X w server pin) = 1)"
proof (intro conjI impI)
  show "fst (xml_status X w data) = GS_ERROR X" using bad by (simp add: xml_status_def)
  show "fst (gs_pair_validate X w data) = 1"
    using gs_pair_validate_status[OF bad, of w] codes by simp
next
  assume n: "network w (length (requests w)) url = (GS_OK X, data)"
  have v: "gs_pair_validate X (w\<lparr>requests := requests w
    @ [(url, HTTPRequestTimeoutLong)]\<rparr>) data =
      (1, [], gs_set_error (status_message X data) (w\<lparr>requests := requests w
        @ [(url, HTTPRequestTimeoutLong)]\<rparr>))"
    using gs_pair_validate_status[OF bad] codes by simp
  from pair_exchange_validate_failed[OF n v] codes
  show "pair_exchange X w server url =
           Inl (1, server,
                w\<lparr>gs_error_text := status_message X data,
                  requests := requests w @ [(url, HTTPRequestTimeoutLong),
                                            (unpair_url server, HTTPRequestTimeoutLow)]\<rparr>)"
    by (simp add: gs_set_error_def)
next
  let ?url = "pair_url False server
                (''phrase=getservercert&salt='' @ c_str (hex X (fst (random_bytes 16 w)))
                 @ ''&clientcert='' @ c_str (hex X (cert_data X)))"
  let ?w0 = "snd (random_bytes 16 w)"
  assume a: "\<not> paired server \<and> currentGame server = 0
        \<and> network w (length (requests w)) ?url = (GS_OK X, data)"
  then have n: "network ?w0 (length (requests ?w0)) ?url = (GS_OK X, data)"
    by (simp add: random_bytes_def)
  have v: "gs_pair_validate X (?w0\<lparr>requests := requests ?w0
    @ [(?url, HTTPRequestTimeoutLong)]\<rparr>) data =
      (1, [], gs_set_error (status_message X data) (?w0\<lparr>requests := requests ?w0
        @ [(?url, HTTPRequestTimeoutLong)]\<rparr>))"
    using gs_pair_validate_status[OF bad] codes by simp
  from pair_exchange_validate_failed[OF n v, of server] codes
  have "pair_exchange X ?w0 server ?url =
      Inl (1, server,
           (gs_set_error (status_message X data)
              (?w0\<lparr>requests := requests ?w0 @ [(?url, HTTPRequestTimeoutLong)]\<rparr>))
           \<lparr>requests := requests (gs_set_error (status_message X data)
              (?w0\<lparr>requests := requests ?w0 @ [(?url, HTTPRequestTimeoutLong)]\<rparr>))
                @ [(unpair_url server, HTTPRequestTimeoutLow)]\<rparr>)"
    by simp
  from gs_pair_stage1_exchange_Inl[OF this, of pin] a
  show "fst (gs_pair X w server pin) = 1" by simp
qed


text \<open>
  C1. The code of the failing stage is not always the one returned. When the first
  response has status 200 and no \<^verbatim>\<open>paired\<close> element, \<^verbatim>\<open>gs_pair_validate\<close> returns
  \<^verbatim>\<open>GS_INVALID\<close>; \<^verbatim>\<open>gs_pair\<close> issues the unpair request and returns 1, the truth value
  of \<^verbatim>\<open>gs_pair_validate(data, &result) != GS_OK\<close> (for result codes with \<^verbatim>\<open>GS_OK\<close> = 0
  and \<^verbatim>\<open>GS_INVALID\<close> not 0).
\<close>

theorem gs_pair_validation_failure_returns_truth_value:
  assumes codes: "GS_OK X = 0" "GS_INVALID X \<noteq> 0"
    and ok: "status_code X data = ''200''" and missing: "xml_text X data ''paired'' = None"
    and pre: "\<not> paired server" "currentGame server = 0"
    and reply: "network w (length (requests w))
             (pair_url False server
                (''phrase=getservercert&salt='' @ c_str (hex X (fst (random_bytes 16 w)))
                 @ ''&clientcert='' @ c_str (hex X (cert_data X)))) = (GS_OK X, data)"
  shows "fst (gs_pair_validate X w data) = GS_INVALID X
    \<and> gs_pair X w server pin =
        (1, server,
         w\<lparr>requests := requests w @
              [(pair_url False server
                  (''phrase=getservercert&salt='' @ c_str (hex X (fst (random_bytes 16 w)))
                   @ ''&clientcert='' @ c_str (hex X (cert_data X))), HTTPRequestTimeoutLong),
               (unpair_url server, HTTPRequestTimeoutLow)],
           random_used := random_used w + 16\<rparr>)"
proof
  show "fst (gs_pair_validate X w data) = GS_INVALID X"
    using gs_pair_validate_missing[OF ok missing, of w] by simp
next
  let ?url = "pair_url False server
                (''phrase=getservercert&salt='' @ c_str (hex X (fst (random_bytes 16 w)))
                 @ ''&clientcert='' @ c_str (hex X (cert_data X)))"
  let ?w0 = "snd (random_bytes 16 w)"
  have n: "network ?w0 (length (requests ?w0)) ?url = (GS_OK X, data)"
    using reply by (simp add: random_bytes_def)
  note v = gs_pair_validate_missing[OF ok missing,
      of "?w0\<lparr>requests := requests ?w0 @ [(?url, HTTPRequestTimeoutLong)]\<rparr>"]
  from pair_exchange_validate_failed[OF n v, of server] codes
  have "pair_exchange X ?w0 server ?url =
      Inl (1, server,
           ?w0\<lparr>requests := requests ?w0 @ [(?url, HTTPRequestTimeoutLong)]\<rparr>
              \<lparr>requests := requests (?w0\<lparr>requests := requests ?w0
                @ [(?url, HTTPRequestTimeoutLong)]\<rparr>)
                @ [(unpair_url server, HTTPRequestTimeoutLow)]\<rparr>)"
    by simp
  from gs_pair_stage1_exchange_Inl[OF this pre, of pin]
  show "gs_pair X w server pin =
        (1, server,
         w\<lparr>requests := requests w @ [(?url, HTTPRequestTimeoutLong),
               (unpair_url server, HTTPRequestTimeoutLow)],
           random_used := random_used w + 16\<rparr>)"
    by (simp add: random_bytes_def)
qed

subsection \<open>The signature check\<close>

text \<open>
  C3. Take a run of \<^verbatim>\<open>gs_pair\<close> that passes the preconditions and the first three
  stages, and in which \<^verbatim>\<open>verify_signature\<close> rejects the server secret (bytes 0 to 16
  of the decoded \<^verbatim>\<open>pairingsecret\<close>) with the server signature (the 256 bytes from
  offset 16) under the certificate received in stage 1. If \<^verbatim>\<open>GS_FAILED\<close> differs from
  \<^verbatim>\<open>GS_OK\<close>, the run returns \<^verbatim>\<open>GS_FAILED\<close>, leaves the descriptor as it was, leaves
  "MITM attack detected" as the error message, and has issued four requests: the three
  pairing requests and then one unpair request.
\<close>

theorem gs_pair_mitm:
  assumes pre: "\<not> paired server" "currentGame server = 0"
    and codes: "GS_FAILED X \<noteq> GS_OK X"
    and s1: "gs_pair_stage1 X w server pin = Inr (w1, l1)"
    and s2: "gs_pair_stage2 X w1 server l1 = Inr (w2, l2)"
    and s3: "gs_pair_stage3 X w2 server l2 = Inr (w3, l3)"
    and bad: "\<not> verify_signature X
                 (subdata X (hex_to_bytes X (pairingsecret l3)) 0 16)
                 (subdata X (hex_to_bytes X (pairingsecret l3)) 16 256)
                 (hex_to_bytes X (plainCert l1))"
  shows "fst (gs_pair X w server pin) = GS_FAILED X
    \<and> fst (snd (gs_pair X w server pin)) = server
    \<and> gs_error (snd (snd (gs_pair X w server pin))) = ''MITM attack detected''
    \<and> (\<exists>u1 u2 u3. requests (snd (snd (gs_pair X w server pin))) =
          requests w @ [(u1, HTTPRequestTimeoutLong), (u2, HTTPRequestTimeoutLong),
                        (u3, HTTPRequestTimeoutLong), (unpair_url server, HTTPRequestTimeoutLow)])"
proof -
  have pc: "plainCert l3 = plainCert l1"
    using stage2_Inr[OF s2] stage3_Inr[OF s3] by simp
  have run: "gs_pair X w server pin =
      (GS_FAILED X, server,
       w3\<lparr>gs_error_text := ''MITM attack detected'',
          requests := requests w3 @ [(unpair_url server, HTTPRequestTimeoutLow)]\<rparr>)"
    using pre s1 s2 s3 stage4_MITM[OF bad[folded pc] codes, of w3 server]
    by (simp add: gs_pair_def)
  obtain u1 where "requests w1 = requests w @ [(u1, HTTPRequestTimeoutLong)]"
    using stage1_Inr[OF s1] by auto
  moreover obtain u2 where "requests w2 = requests w1 @ [(u2, HTTPRequestTimeoutLong)]"
    using stage2_Inr[OF s2] by auto
  moreover obtain u3 where "requests w3 = requests w2 @ [(u3, HTTPRequestTimeoutLong)]"
    using stage3_Inr[OF s3] by auto
  ultimately show ?thesis using run by (simp add: gs_error_def)
qed

subsection \<open>The choice of the hash\<close>

lemma gs_pair_cleanup_requests:
  "\<exists>rest. requests (snd (snd (gs_pair_cleanup X w ret server))) = requests w @ rest"
  by (simp add: gs_pair_cleanup_def gs_unpair_def http_request_def split: prod.splits)

lemma pair_exchange_Inl_first:
  assumes "pair_exchange X w server url = Inl (ret, s, w')"
  shows "\<exists>rest. requests w' = requests w @ (url, HTTPRequestTimeoutLong) # rest"
  using assms
  by (auto simp: pair_exchange_def http_request_def gs_pair_validate_def xml_status_def
      gs_set_error_def gs_pair_cleanup_def gs_unpair_def Let_def split: prod.splits if_splits)

lemma stage2_Inl_first:
  assumes "gs_pair_stage2 X w server l = Inl (ret, s, w')"
  shows "\<exists>rest. requests w' = requests w @
      (pair_url False server (''clientchallenge=''
        @ c_str (hex X (aes_encrypt X (fst (random_bytes 16 w))
          (if 7 \<le> serverMajorVersion server then create_AES_key_from_salt_SHA256 X (salted_pin l)
           else create_AES_key_from_salt_SHA1 X (salted_pin l))))), HTTPRequestTimeoutLong) # rest"
proof -
  obtain rc w0 where r: "random_bytes 16 w = (rc, w0)" by (cases "random_bytes 16 w") auto
  obtain url where u: "url = pair_url False server (''clientchallenge=''
    @ c_str (hex X (aes_encrypt X rc
          (if 7 \<le> serverMajorVersion server then create_AES_key_from_salt_SHA256 X (salted_pin l)
           else create_AES_key_from_salt_SHA1 X (salted_pin l)))))" by simp
  show ?thesis
  proof (cases "pair_exchange X w0 server url")
    case (Inl a)
    then have "pair_exchange X w0 server url = Inl (ret, s, w')"
      using assms(1) r u by (simp add: gs_pair_stage2_def Let_def split: if_splits)
    from pair_exchange_Inl_first[OF this] random_bytes_world[OF r] r u show ?thesis by auto
  next
    case (Inr b)
    obtain w1 data result where b: "b = (w1, data, result)" by (cases b) auto
    from pair_exchange_Inr[OF Inr[unfolded b]] random_bytes_world[OF r]
    have q: "requests w1 = requests w @ [(url, HTTPRequestTimeoutLong)]" by simp
    from assms r Inr b u have "w' = snd (snd (gs_pair_cleanup X w1 (GS_INVALID X) server))"
      by (auto simp: gs_pair_stage2_def Let_def split: prod.splits if_splits)
    with gs_pair_cleanup_requests[of X w1 "GS_INVALID X" server] q r u show ?thesis by auto
  qed
qed

lemma stage3_Inl_first:
  assumes "gs_pair_stage3 X w server l = Inl (ret, s, w')"
  shows "\<exists>rest. requests w' = requests w @
      (pair_url False server (''serverchallengeresp='' @ c_str (hex X (aes_encrypt X
         (if 7 \<le> serverMajorVersion server
          then SHA256_hash_data X
                 (subdata X (aes_decrypt X (hex_to_bytes X (challengeresponse l)) (aesKey l)) (hashLength l) 16
                  @ signature X (cert_data X) @ fst (random_bytes 16 w))
          else SHA1_hash_data X
                 (subdata X (aes_decrypt X (hex_to_bytes X (challengeresponse l)) (aesKey l)) (hashLength l) 16
                  @ signature X (cert_data X) @ fst (random_bytes 16 w)))
         (aesKey l)))), HTTPRequestTimeoutLong) # rest"
proof -
  obtain cs w0 where r: "random_bytes 16 w = (cs, w0)" by (cases "random_bytes 16 w") auto
  obtain url where u: "url = pair_url False server (''serverchallengeresp=''
    @ c_str (hex X (aes_encrypt X
      (if 7 \<le> serverMajorVersion server
       then SHA256_hash_data X (subdata X (aes_decrypt X (hex_to_bytes X (challengeresponse l)) (aesKey l)) (hashLength l) 16
              @ signature X (cert_data X) @ cs)
       else SHA1_hash_data X (subdata X (aes_decrypt X (hex_to_bytes X (challengeresponse l)) (aesKey l)) (hashLength l) 16
              @ signature X (cert_data X) @ cs))
      (aesKey l))))" by simp
  show ?thesis
  proof (cases "pair_exchange X w0 server url")
    case (Inl a)
    then have "pair_exchange X w0 server url = Inl (ret, s, w')"
      using assms(1) r u by (simp add: gs_pair_stage3_def Let_def split: if_splits)
    from pair_exchange_Inl_first[OF this] random_bytes_world[OF r] r u show ?thesis by auto
  next
    case (Inr b)
    obtain w1 data result where b: "b = (w1, data, result)" by (cases b) auto
    from pair_exchange_Inr[OF Inr[unfolded b]] random_bytes_world[OF r]
    have q: "requests w1 = requests w @ [(url, HTTPRequestTimeoutLong)]" by simp
    from assms r Inr b u have "w' = snd (snd (gs_pair_cleanup X w1 (GS_INVALID X) server))"
      by (auto simp: gs_pair_stage3_def Let_def split: prod.splits if_splits)
    with gs_pair_cleanup_requests[of X w1 "GS_INVALID X" server] q r u show ?thesis by auto
  qed
qed

lemma stage1_Inr_locals:
  assumes "gs_pair_stage1 X w server pin = Inr (w', l)"
  shows "salted_pin l = fst (random_bytes 16 w) @ c_str pin
    \<and> random_source w' = random_source w \<and> random_used w' = random_used w + 16"
proof -
  obtain salt w0 where r: "random_bytes 16 w = (salt, w0)" by (cases "random_bytes 16 w") auto
  let ?url = "pair_url False server
                  (''phrase=getservercert&salt='' @ c_str (hex X salt)
                   @ ''&clientcert='' @ c_str (hex X (cert_data X)))"
  from assms r obtain data result where e: "pair_exchange X w0 server ?url = Inr (w', data, result)"
    by (auto simp: gs_pair_stage1_def Let_def split: sum.splits prod.splits if_splits)
  from pair_exchange_Inr[OF e] assms r e show ?thesis
    by (auto simp: gs_pair_stage1_def Let_def random_bytes_def split: sum.splits prod.splits if_splits)
qed

lemma stage4_Inl_extends:
  assumes "gs_pair_stage4 X w server l = Inl (ret, s, w')"
  shows "\<exists>rest. requests w' = requests w @ rest"
proof (cases "verify_signature X (subdata X (hex_to_bytes X (pairingsecret l)) 0 16)
             (subdata X (hex_to_bytes X (pairingsecret l)) 16 256) (hex_to_bytes X (plainCert l))")
  case False
  with assms have "w' = snd (snd (gs_pair_cleanup X (gs_set_error ''MITM attack detected'' w) (GS_FAILED X) server))"
    by (simp add: gs_pair_stage4_def Let_def)
  with gs_pair_cleanup_requests[of X "gs_set_error ''MITM attack detected'' w" "GS_FAILED X" server]
  show ?thesis by (simp add: gs_set_error_def)
next
  case True
  let ?url = "pair_url False server
      (''clientpairingsecret='' @ c_str (hex X (clientSecret l
        @ sign_data X (clientSecret l) (key_data X))))"
  from assms True have "pair_exchange X w server ?url = Inl (ret, s, w')"
    by (auto simp: gs_pair_stage4_def Let_def split: sum.splits prod.splits)
  from pair_exchange_Inl_first[OF this] show ?thesis by auto
qed

lemma stage5_extends:
  "\<exists>rest. requests (snd (snd (gs_pair_stage5 X w server))) = requests w @ rest"
proof (cases "pair_exchange X w server (pair_url True server ''phrase=pairchallenge'')")
  case (Inl a)
  obtain ret s w' where a: "a = (ret, s, w')" by (cases a) auto
  from pair_exchange_Inl_first[OF Inl[unfolded a]] Inl a show ?thesis
    by (auto simp: gs_pair_stage5_def)
next
  case (Inr b)
  obtain w1 data result where b: "b = (w1, data, result)" by (cases b) auto
  from pair_exchange_Inr[OF Inr[unfolded b]]
    gs_pair_cleanup_requests[of X w1 0 "server\<lparr>paired := True\<rparr>"] Inr b
  show ?thesis by (auto simp: gs_pair_stage5_def)
qed

text \<open>What the stages after the third add to the log is appended to it.\<close>

lemma stages45_extend:
  "\<exists>rest. requests (snd (snd (case gs_pair_stage4 X w server l of
       Inl r \<Rightarrow> r | Inr w \<Rightarrow> gs_pair_stage5 X w server))) = requests w @ rest"
proof (cases "gs_pair_stage4 X w server l")
  case (Inl a)
  obtain ret s w' where a: "a = (ret, s, w')" by (cases a) auto
  from stage4_Inl_extends[OF Inl[unfolded a]] Inl a show ?thesis by auto
next
  case (Inr w4)
  from stage4_Inr[OF Inr] stage5_extends[of X w4 server] Inr show ?thesis by auto
qed

text \<open>The request of stage 3 is the first that the stages from the third on add.\<close>

lemma stages345_first:
  "\<exists>rest. requests (snd (snd (case gs_pair_stage3 X w server l of
       Inl r \<Rightarrow> r
     | Inr (w, l3) \<Rightarrow> (case gs_pair_stage4 X w server l3 of
         Inl r \<Rightarrow> r | Inr w \<Rightarrow> gs_pair_stage5 X w server)))) =
     requests w @
      (pair_url False server (''serverchallengeresp='' @ c_str (hex X (aes_encrypt X
         (if 7 \<le> serverMajorVersion server
          then SHA256_hash_data X
                 (subdata X (aes_decrypt X (hex_to_bytes X (challengeresponse l)) (aesKey l)) (hashLength l) 16
                  @ signature X (cert_data X) @ fst (random_bytes 16 w))
          else SHA1_hash_data X
                 (subdata X (aes_decrypt X (hex_to_bytes X (challengeresponse l)) (aesKey l)) (hashLength l) 16
                  @ signature X (cert_data X) @ fst (random_bytes 16 w)))
         (aesKey l)))), HTTPRequestTimeoutLong) # rest"
proof (cases "gs_pair_stage3 X w server l")
  case (Inl a)
  obtain ret s w' where a: "a = (ret, s, w')" by (cases a) auto
  from stage3_Inl_first[OF Inl[unfolded a]] Inl a show ?thesis by auto
next
  case (Inr b)
  obtain w3 l3 where b: "b = (w3, l3)" by (cases b) auto
  note f = stage3_Inr[OF Inr[unfolded b]]
  from stages45_extend[where X = X and w = w3 and server = server and l = l3] obtain rest where
    "requests (snd (snd (case gs_pair_stage4 X w3 server l3 of
       Inl r \<Rightarrow> r | Inr w \<Rightarrow> gs_pair_stage5 X w server))) = requests w3
         @ rest" by blast
  with f Inr b show ?thesis by (auto split: if_splits)
qed

text \<open>
  C4. Let \<^verbatim>\<open>gs_pair\<close> run on an unpaired server with no game running, and let its first
  exchange (the server certificate) succeed. The salted PIN is the 16 random bytes of the
  salt followed by the PIN. If \<^verbatim>\<open>serverMajorVersion\<close> is at least 7 the AES key is
  \<^verbatim>\<open>create_AES_key_from_salt_SHA256\<close> of the salted PIN and \<^verbatim>\<open>hashLength\<close> is 32, otherwise
  the key is \<^verbatim>\<open>create_AES_key_from_salt_SHA1\<close> of it and \<^verbatim>\<open>hashLength\<close> is 20. The second
  request of \<^verbatim>\<open>gs_pair\<close> carries the client challenge encrypted under that key, whether
  or not its response is accepted. If it is accepted, \<^verbatim>\<open>serverResponse\<close> is
  \<^verbatim>\<open>subdata(0, hashLength)\<close> and \<^verbatim>\<open>serverChallenge\<close> is \<^verbatim>\<open>subdata(hashLength, 16)\<close> of the
  challenge response decrypted under that key, the challenge response hash is the
  SHA-256 hash (from generation 7 on) or the SHA-1 hash (before) of the server challenge,
  the signature of the certificate and the client secret, and the third request of
  \<^verbatim>\<open>gs_pair\<close> carries that hash encrypted under that key.
\<close>

theorem gs_pair_hash_choice:
  assumes pre: "\<not> paired server" "currentGame server = 0"
    and s1: "gs_pair_stage1 X w server pin = Inr (w1, l1)"
  shows
    "let salted = fst (random_bytes 16 w) @ c_str pin;
         sha256 = (7 \<le> serverMajorVersion server);
         key = (if sha256 then create_AES_key_from_salt_SHA256 X salted
                else create_AES_key_from_salt_SHA1 X salted);
         len = (if sha256 then 32 else 20);
         issued = requests (snd (snd (gs_pair X w server pin)))
     in salted_pin l1 = salted
      \<and> issued ! (length (requests w) + 1) =
          (pair_url False server
             (''clientchallenge='' @ c_str (hex X (aes_encrypt X (fst (random_bytes 16 w1)) key))),
           HTTPRequestTimeoutLong)
      \<and> (\<forall>w2 l2. gs_pair_stage2 X w1 server l1 = Inr (w2, l2) \<longrightarrow>
            aesKey l2 = key \<and> hashLength l2 = len
          \<and> (let dec = aes_decrypt X (hex_to_bytes X (challengeresponse l2)) key;
                  input = subdata X dec len 16 @ signature X (cert_data X)
                    @ fst (random_bytes 16 w2);
                  hashed = (if sha256 then SHA256_hash_data X input else SHA1_hash_data X input)
              in issued ! (length (requests w) + 2) =
                   (pair_url False server
                      (''serverchallengeresp='' @ c_str (hex X (aes_encrypt X hashed key))),
                    HTTPRequestTimeoutLong)
               \<and> (\<forall>w3 l3. gs_pair_stage3 X w2 server l2 = Inr (w3, l3) \<longrightarrow>
                     serverResponse l3 = subdata X dec 0 len
                   \<and> serverChallenge l3 = subdata X dec len 16
                   \<and> clientSecret l3 = fst (random_bytes 16 w2)
                   \<and> challengeRespHash l3 = hashed)))"
proof -
  let ?salted = "fst (random_bytes 16 w) @ c_str pin"
  let ?key = "if 7 \<le> serverMajorVersion server then create_AES_key_from_salt_SHA256 X ?salted
              else create_AES_key_from_salt_SHA1 X ?salted"
  let ?len = "if 7 \<le> serverMajorVersion server then 32 else 20 :: nat"
  let ?url2 = "pair_url False server
             (''clientchallenge='' @ c_str (hex X (aes_encrypt X (fst (random_bytes 16 w1)) ?key)))"
  have sp: "salted_pin l1 = ?salted" using stage1_Inr_locals[OF s1] by simp
  obtain u1 where q1: "requests w1 = requests w @ [(u1, HTTPRequestTimeoutLong)]"
    using stage1_Inr[OF s1] by auto
  have run: "gs_pair X w server pin =
      (case gs_pair_stage2 X w1 server l1 of
         Inl r \<Rightarrow> r
       | Inr (w, l2) \<Rightarrow> (case gs_pair_stage3 X w server l2 of
           Inl r \<Rightarrow> r
         | Inr (w, l3) \<Rightarrow> (case gs_pair_stage4 X w server l3 of
             Inl r \<Rightarrow> r | Inr w \<Rightarrow> gs_pair_stage5 X w server)))"
    using pre s1 by (simp add: gs_pair_def)
  have second: "requests (snd (snd (gs_pair X w server pin))) ! (length (requests w) + 1) =
      (?url2, HTTPRequestTimeoutLong)"
  proof (cases "gs_pair_stage2 X w1 server l1")
    case (Inl a)
    obtain ret s w' where a: "a = (ret, s, w')" by (cases a) auto
    from stage2_Inl_first[OF Inl[unfolded a]] obtain rest where
      "requests w' = requests w1 @
         (pair_url False server (''clientchallenge=''
           @ c_str (hex X (aes_encrypt X (fst (random_bytes 16 w1))
          (if 7 \<le> serverMajorVersion server then create_AES_key_from_salt_SHA256 X (salted_pin l1)
           else create_AES_key_from_salt_SHA1 X (salted_pin l1))))), HTTPRequestTimeoutLong) # rest"
      by blast
    with run Inl a q1 sp show ?thesis by (simp add: nth_append)
  next
    case (Inr b)
    obtain w2 l2 where b: "b = (w2, l2)" by (cases b) auto
    note f = stage2_Inr[OF Inr[unfolded b]]
    from stages345_first[where X = X and w = w2 and server = server and l = l2] obtain rest where
      "requests (snd (snd (case gs_pair_stage3 X w2 server l2 of
           Inl r \<Rightarrow> r
         | Inr (w, l3) \<Rightarrow> (case gs_pair_stage4 X w server l3 of
             Inl r \<Rightarrow> r | Inr w \<Rightarrow> gs_pair_stage5 X w server)))) ! (length (requests w) + 1) =
       requests w2 ! (length (requests w) + 1)"
      using f q1 by (auto simp: nth_append)
    with run Inr b f q1 sp show ?thesis by (auto simp: nth_append split: if_splits)
  qed
  have third: "aesKey l2 = ?key \<and> hashLength l2 = ?len
      \<and> requests (snd (snd (gs_pair X w server pin))) ! (length (requests w) + 2) =
          (pair_url False server (''serverchallengeresp='' @ c_str (hex X (aes_encrypt X
             (if 7 \<le> serverMajorVersion server
              then SHA256_hash_data X
                     (subdata X (aes_decrypt X (hex_to_bytes X (challengeresponse l2)) ?key) ?len 16
                      @ signature X (cert_data X) @ fst (random_bytes 16 w2))
              else SHA1_hash_data X
                     (subdata X (aes_decrypt X (hex_to_bytes X (challengeresponse l2)) ?key) ?len 16
                      @ signature X (cert_data X) @ fst (random_bytes 16 w2)))
             ?key))), HTTPRequestTimeoutLong)"
    if s2: "gs_pair_stage2 X w1 server l1 = Inr (w2, l2)" for w2 l2
  proof -
    note f = stage2_Inr[OF s2]
    have k: "aesKey l2 = ?key" and h: "hashLength l2 = ?len" using f sp by (auto split: if_splits)
    have q2: "length (requests w2) = length (requests w) + 2" using f q1 by simp
    from stages345_first[where X = X and w = w2 and server = server and l = l2] run s2 q2 k h
    show ?thesis by (auto simp: nth_append split: if_splits)
  qed
  have locals: "serverResponse l3 =
        subdata X (aes_decrypt X (hex_to_bytes X (challengeresponse l2)) ?key) 0 ?len
      \<and> serverChallenge l3 =
        subdata X (aes_decrypt X (hex_to_bytes X (challengeresponse l2)) ?key) ?len 16
      \<and> clientSecret l3 = fst (random_bytes 16 w2)
      \<and> challengeRespHash l3 =
          (if 7 \<le> serverMajorVersion server
           then SHA256_hash_data X
                  (subdata X (aes_decrypt X (hex_to_bytes X (challengeresponse l2)) ?key) ?len 16
                   @ signature X (cert_data X) @ fst (random_bytes 16 w2))
           else SHA1_hash_data X
                  (subdata X (aes_decrypt X (hex_to_bytes X (challengeresponse l2)) ?key) ?len 16
                   @ signature X (cert_data X) @ fst (random_bytes 16 w2)))"
    if s2: "gs_pair_stage2 X w1 server l1 = Inr (w2, l2)"
      and s3: "gs_pair_stage3 X w2 server l2 = Inr (w3, l3)" for w2 l2 w3 l3
  proof -
    have k: "aesKey l2 = ?key" and h: "hashLength l2 = ?len" using third[OF s2] by simp_all
    from stage3_Inr[OF s3] k h show ?thesis by (auto split: if_splits)
  qed
  show ?thesis
    unfolding Let_def
    using sp second third locals by (intro conjI allI impI) (simp_all split: if_splits)
qed

subsection \<open>The pairing theorems on the scenarios\<close>

text \<open>
  The runs below evaluate the stages on the concrete scenarios; the URLs stay as
  \<open>pair_url\<close> terms.
\<close>

lemmas run_defs = pair_exchange_def http_request_def gs_pair_validate_def xml_status_def
  xml_search_def random_bytes_def gs_pair_cleanup_def gs_unpair_def gs_set_error_def Let_def

lemma sample_externals_simps:
  "GS_OK sample_externals = 0" "GS_FAILED sample_externals = - 1" "GS_INVALID sample_externals = - 3"
  "GS_ERROR sample_externals = - 9"
  by (simp_all add: sample_externals_def)

lemma mitm_stage1:
  "\<exists>w1 l1. gs_pair_stage1 mitm_externals sample_world sample_server ''1234'' = Inr (w1, l1)
     \<and> network w1 = network sample_world"
  by (simp add: gs_pair_stage1_def run_defs mitm_externals_def sample_externals_def sample_world_def)

lemma sample_network_stage2:
  assumes "network w = network sample_world"
  shows "\<exists>w2 l2. gs_pair_stage2 mitm_externals w sample_server l = Inr (w2, l2)
     \<and> network w2 = network sample_world"
  using assms
  by (simp add: gs_pair_stage2_def run_defs mitm_externals_def sample_externals_def sample_world_def
      split: prod.splits)

lemma sample_network_stage3:
  assumes "network w = network sample_world"
  shows "\<exists>w3 l3. gs_pair_stage3 mitm_externals w sample_server l = Inr (w3, l3)"
  using assms
  by (simp add: gs_pair_stage3_def run_defs mitm_externals_def sample_externals_def sample_world_def
      split: prod.splits)

theorem gs_pair_mitm_witness:
  "\<not> paired sample_server \<and> currentGame sample_server = 0
   \<and> GS_FAILED mitm_externals \<noteq> GS_OK mitm_externals
   \<and> (\<exists>w1 l1 w2 l2 w3 l3.
         gs_pair_stage1 mitm_externals sample_world sample_server ''1234'' = Inr (w1, l1)
       \<and> gs_pair_stage2 mitm_externals w1 sample_server l1 = Inr (w2, l2)
       \<and> gs_pair_stage3 mitm_externals w2 sample_server l2 = Inr (w3, l3)
       \<and> \<not> verify_signature mitm_externals
             (subdata mitm_externals (hex_to_bytes mitm_externals (pairingsecret l3)) 0 16)
             (subdata mitm_externals (hex_to_bytes mitm_externals (pairingsecret l3)) 16 256)
             (hex_to_bytes mitm_externals (plainCert l1)))
   \<and> fst (gs_pair mitm_externals sample_world sample_server ''1234'') = - 1
   \<and> fst (snd (gs_pair mitm_externals sample_world sample_server ''1234'')) = sample_server
   \<and> gs_error (snd (snd (gs_pair mitm_externals sample_world sample_server ''1234''))) =
        ''MITM attack detected''
   \<and> length (requests (snd (snd (gs_pair mitm_externals sample_world sample_server ''1234'')))) = 4
   \<and> last (requests (snd (snd (gs_pair mitm_externals sample_world sample_server ''1234'')))) =
        (unpair_url sample_server, HTTPRequestTimeoutLow)"
proof -
  have pre: "\<not> paired sample_server" "currentGame sample_server = 0"
    by (simp_all add: sample_server_def)
  have codes: "GS_FAILED mitm_externals \<noteq> GS_OK mitm_externals"
    by (simp add: mitm_externals_def sample_externals_def)
  have failed: "GS_FAILED mitm_externals = - 1"
    by (simp add: mitm_externals_def sample_externals_def)
  have empty: "requests sample_world = []" by (simp add: sample_world_def)
  obtain w1 l1 where s1:
    "gs_pair_stage1 mitm_externals sample_world sample_server ''1234'' = Inr (w1, l1)"
    and n1: "network w1 = network sample_world"
    using mitm_stage1 by blast
  obtain w2 l2 where s2: "gs_pair_stage2 mitm_externals w1 sample_server l1 = Inr (w2, l2)"
    and n2: "network w2 = network sample_world"
    using sample_network_stage2[OF n1] by blast
  obtain w3 l3 where s3: "gs_pair_stage3 mitm_externals w2 sample_server l2 = Inr (w3, l3)"
    using sample_network_stage3[OF n2] by blast
  have bad: "\<not> verify_signature mitm_externals
             (subdata mitm_externals (hex_to_bytes mitm_externals (pairingsecret l3)) 0 16)
             (subdata mitm_externals (hex_to_bytes mitm_externals (pairingsecret l3)) 16 256)
             (hex_to_bytes mitm_externals (plainCert l1))"
    by (simp add: mitm_externals_def)
  note t = gs_pair_mitm[OF pre codes s1 s2 s3 bad]
  from t obtain u1 u2 u3 where
    r: "requests (snd (snd (gs_pair mitm_externals sample_world sample_server ''1234''))) =
          requests sample_world @ [(u1, HTTPRequestTimeoutLong), (u2, HTTPRequestTimeoutLong),
                        (u3, HTTPRequestTimeoutLong), (unpair_url sample_server, HTTPRequestTimeoutLow)]"
    by blast
  have "length (requests (snd (snd (gs_pair mitm_externals sample_world sample_server ''1234'')))) = 4"
    and "last (requests (snd (snd (gs_pair mitm_externals sample_world sample_server ''1234'')))) =
        (unpair_url sample_server, HTTPRequestTimeoutLow)"
    by (simp_all add: r empty)
  with pre codes s1 s2 s3 bad t failed show ?thesis by (simp only:) blast
qed

theorem gs_pair_wrong_state_witness:
  "paired (sample_server\<lparr>paired := True\<rparr>)
   \<and> gs_pair sample_externals sample_world (sample_server\<lparr>paired := True\<rparr>) ''1234'' =
       (GS_WRONG_STATE sample_externals, sample_server\<lparr>paired := True\<rparr>,
        sample_world\<lparr>gs_error_text := ''Already paired''\<rparr>)
   \<and> \<not> paired (sample_server\<lparr>currentGame := 5\<rparr>)
   \<and> currentGame (sample_server\<lparr>currentGame := 5\<rparr>) \<noteq> 0
   \<and> gs_pair sample_externals sample_world (sample_server\<lparr>currentGame := 5\<rparr>) ''1234'' =
       (GS_WRONG_STATE sample_externals, sample_server\<lparr>currentGame := 5\<rparr>,
        sample_world\<lparr>gs_error_text :=
           ''The computer is currently in a game. You must close the game before pairing''\<rparr>)
   \<and> requests (sample_world\<lparr>gs_error_text := ''Already paired''\<rparr>) = requests sample_world"
proof -
  have a: "paired (sample_server\<lparr>paired := True\<rparr>)" by simp
  have b: "\<not> paired (sample_server\<lparr>currentGame := 5\<rparr>) \<and> currentGame (sample_server\<lparr>currentGame := 5\<rparr>) \<noteq> 0"
    by (simp add: sample_server_def)
  from a b
    gs_pair_wrong_state[of "sample_server\<lparr>paired := True\<rparr>" sample_externals sample_world "''1234''"]
    gs_pair_wrong_state[of "sample_server\<lparr>currentGame := 5\<rparr>" sample_externals sample_world "''1234''"]
  show ?thesis by simp
qed

theorem gs_pair_status_error_returns_one_witness:
  "GS_OK sample_externals = 0 \<and> GS_ERROR sample_externals = - 9
   \<and> status_code sample_externals ''404 Not Found'' \<noteq> ''200''
   \<and> \<not> paired sample_server \<and> currentGame sample_server = 0
   \<and> network error_status_world (length (requests error_status_world))
        (pair_url False sample_server
           (''phrase=getservercert&salt=''
            @ c_str (hex sample_externals (fst (random_bytes 16 error_status_world)))
            @ ''&clientcert='' @ c_str (hex sample_externals (cert_data sample_externals)))) =
       (GS_OK sample_externals, ''404 Not Found'')
   \<and> fst (xml_status sample_externals error_status_world ''404 Not Found'') = - 9
   \<and> fst (gs_pair_validate sample_externals error_status_world ''404 Not Found'') = 1
   \<and> fst (gs_pair sample_externals error_status_world sample_server ''1234'') = 1"
proof -
  have codes: "GS_OK sample_externals = 0" "GS_ERROR sample_externals \<noteq> 0"
    and err: "GS_ERROR sample_externals = - 9"
    by (simp_all add: sample_externals_def)
  have bad: "status_code sample_externals ''404 Not Found'' \<noteq> ''200''"
    by (simp add: sample_externals_def)
  have pre: "\<not> paired sample_server" "currentGame sample_server = 0"
    by (simp_all add: sample_server_def)
  have reply: "network error_status_world (length (requests error_status_world)) url =
       (GS_OK sample_externals, ''404 Not Found'')" for url
    by (simp add: error_status_world_def sample_externals_def)
  from gs_pair_status_error_returns_one[OF codes bad, of error_status_world _ sample_server "''1234''"]
    codes err bad pre reply
  show ?thesis by simp
qed

theorem gs_pair_validation_failure_returns_truth_value_witness:
  "GS_OK missing_paired_externals = 0 \<and> GS_INVALID missing_paired_externals = - 3
   \<and> status_code missing_paired_externals ''200'' = ''200''
   \<and> xml_text missing_paired_externals ''200'' ''paired'' = None
   \<and> \<not> paired sample_server \<and> currentGame sample_server = 0
   \<and> network sample_world (length (requests sample_world))
        (pair_url False sample_server
           (''phrase=getservercert&salt=''
            @ c_str (hex missing_paired_externals (fst (random_bytes 16 sample_world)))
            @ ''&clientcert=''
              @ c_str (hex missing_paired_externals (cert_data missing_paired_externals)))) =
       (GS_OK missing_paired_externals, ''200'')
   \<and> fst (gs_pair_validate missing_paired_externals sample_world ''200'') = - 3
   \<and> fst (gs_pair missing_paired_externals sample_world sample_server ''1234'') = 1
   \<and> fst (snd (gs_pair missing_paired_externals sample_world sample_server ''1234'')) = sample_server
   \<and> last (requests (snd (snd (gs_pair missing_paired_externals sample_world sample_server ''1234'')))) =
        (unpair_url sample_server, HTTPRequestTimeoutLow)"
proof -
  have codes: "GS_OK missing_paired_externals = 0" "GS_INVALID missing_paired_externals \<noteq> 0"
    and inv: "GS_INVALID missing_paired_externals = - 3"
    by (simp_all add: missing_paired_externals_def sample_externals_def)
  have ok: "status_code missing_paired_externals ''200'' = ''200''"
    and missing: "xml_text missing_paired_externals ''200'' ''paired'' = None"
    by (simp_all add: missing_paired_externals_def sample_externals_def)
  have pre: "\<not> paired sample_server" "currentGame sample_server = 0"
    by (simp_all add: sample_server_def)
  have reply: "network sample_world (length (requests sample_world))
        (pair_url False sample_server
           (''phrase=getservercert&salt=''
            @ c_str (hex missing_paired_externals (fst (random_bytes 16 sample_world)))
            @ ''&clientcert=''
              @ c_str (hex missing_paired_externals (cert_data missing_paired_externals)))) =
       (GS_OK missing_paired_externals, ''200'')"
    by (simp add: sample_world_def missing_paired_externals_def sample_externals_def)
  from gs_pair_validation_failure_returns_truth_value[OF codes ok missing pre reply, where pin = "''1234''"]
    codes inv ok missing pre reply
  show ?thesis by simp
qed

lemma stage2_Inr_random:
  assumes "gs_pair_stage2 X w server l = Inr (w', l')"
  shows "random_source w' = random_source w \<and> random_used w' = random_used w + 16"
proof -
  obtain rc w0 where r: "random_bytes 16 w = (rc, w0)" by (cases "random_bytes 16 w") auto
  obtain url where u: "url = pair_url False server (''clientchallenge=''
    @ c_str (hex X (aes_encrypt X rc
          (if 7 \<le> serverMajorVersion server then create_AES_key_from_salt_SHA256 X (salted_pin l)
           else create_AES_key_from_salt_SHA1 X (salted_pin l)))))" by simp
  from assms r u obtain data result where e: "pair_exchange X w0 server url = Inr (w', data, result)"
    by (auto simp: gs_pair_stage2_def Let_def split: sum.splits prod.splits if_splits)
  from pair_exchange_Inr[OF e] r show ?thesis by (auto simp: random_bytes_def)
qed

lemma tagged_draws:
  assumes "random_source v = random_source tagged_world"
  shows "random_used v = 0 \<Longrightarrow> fst (random_bytes 16 v) = ''ssssssssssssssss''"
    and "random_used v = 16 \<Longrightarrow> fst (random_bytes 16 v) = ''cccccccccccccccc''"
    and "random_used v = 32 \<Longrightarrow> fst (random_bytes 16 v) = ''kkkkkkkkkkkkkkkk''"
  using assms by (simp_all add: random_bytes_def tagged_world_def upt_conv_Cons)

lemma tagged_stage1:
  "\<exists>w1 l1. gs_pair_stage1 tagged_externals tagged_world server ''1234'' = Inr (w1, l1)
     \<and> network w1 = network sample_world"
  by (simp add: gs_pair_stage1_def run_defs tagged_externals_def tagged_world_def
      sample_externals_def sample_world_def)

lemma tagged_stage2:
  assumes "network v = network sample_world"
  shows "\<exists>w2 l2. gs_pair_stage2 tagged_externals v server l = Inr (w2, l2)
     \<and> network w2 = network sample_world
     \<and> challengeresponse l2 = ''0123456789abcdefghijklmnopqrstuvwxyzABCDEFGHIJKL''"
  using assms
  by (simp add: gs_pair_stage2_def run_defs tagged_externals_def sample_externals_def sample_world_def
      split: prod.splits)

lemma tagged_stage3:
  assumes "network v = network sample_world"
  shows "\<exists>w3 l3. gs_pair_stage3 tagged_externals v server l = Inr (w3, l3)"
  using assms
  by (simp add: gs_pair_stage3_def run_defs tagged_externals_def sample_externals_def sample_world_def
      split: prod.splits)

lemma tagged_stages:
  "\<exists>w1 l1 w2 l2 w3 l3.
       gs_pair_stage1 tagged_externals tagged_world server ''1234'' = Inr (w1, l1)
     \<and> gs_pair_stage2 tagged_externals w1 server l1 = Inr (w2, l2)
     \<and> gs_pair_stage3 tagged_externals w2 server l2 = Inr (w3, l3)
     \<and> fst (random_bytes 16 w1) = ''cccccccccccccccc''
     \<and> fst (random_bytes 16 w2) = ''kkkkkkkkkkkkkkkk''
     \<and> challengeresponse l2 = ''0123456789abcdefghijklmnopqrstuvwxyzABCDEFGHIJKL''"
proof -
  obtain w1 l1 where s1: "gs_pair_stage1 tagged_externals tagged_world server ''1234'' = Inr (w1, l1)"
    and n1: "network w1 = network sample_world"
    using tagged_stage1 by blast
  obtain w2 l2 where s2: "gs_pair_stage2 tagged_externals w1 server l1 = Inr (w2, l2)"
    and n2: "network w2 = network sample_world"
    and cr: "challengeresponse l2 = ''0123456789abcdefghijklmnopqrstuvwxyzABCDEFGHIJKL''"
    using tagged_stage2[OF n1] by blast
  obtain w3 l3 where s3: "gs_pair_stage3 tagged_externals w2 server l2 = Inr (w3, l3)"
    using tagged_stage3[OF n2] by blast
  have r0: "random_source tagged_world = random_source tagged_world" "random_used tagged_world = 0"
    by (simp_all add: tagged_world_def sample_world_def)
  have r1: "random_source w1 = random_source tagged_world" "random_used w1 = 16"
    using stage1_Inr_locals[OF s1] r0 by simp_all
  have r2: "random_source w2 = random_source tagged_world" "random_used w2 = 32"
    using stage2_Inr_random[OF s2] r1 by simp_all
  have "fst (random_bytes 16 w1) = ''cccccccccccccccc''"
    "fst (random_bytes 16 w2) = ''kkkkkkkkkkkkkkkk''"
    using tagged_draws(2)[OF r1] tagged_draws(3)[OF r2] by simp_all
  with s1 s2 s3 cr show ?thesis by blast
qed

lemma tagged_externals_fields:
  "hex tagged_externals = (\<lambda>d. d)" "hex_to_bytes tagged_externals = (\<lambda>d. d)"
  "subdata tagged_externals = (\<lambda>d offset len. take len (drop offset d))"
  "cert_data tagged_externals = ''cert''" "signature tagged_externals = (\<lambda>d. ''sig'')"
  "create_AES_key_from_salt_SHA256 tagged_externals = (\<lambda>d. ''sha256-key('' @ d @ '')'')"
  "create_AES_key_from_salt_SHA1 tagged_externals = (\<lambda>d. ''sha1-key('' @ d @ '')'')"
  "aes_encrypt tagged_externals = (\<lambda>d k. ''enc('' @ d @ '','' @ k @ '')'')"
  "aes_decrypt tagged_externals = (\<lambda>d k. d)"
  "SHA256_hash_data tagged_externals = (\<lambda>d. ''sha256('' @ d @ '')'')"
  "SHA1_hash_data tagged_externals = (\<lambda>d. ''sha1('' @ d @ '')'')"
  by (simp_all add: tagged_externals_def sample_externals_def)

lemma tagged_world_start:
  "fst (random_bytes 16 tagged_world) = ''ssssssssssssssss''" "length (requests tagged_world) = 0"
  by (simp_all add: random_bytes_def tagged_world_def sample_world_def upt_conv_Cons)

theorem gs_pair_hash_choice_witness:
  "\<not> paired sample_server \<and> currentGame sample_server = 0
   \<and> 7 \<le> serverMajorVersion sample_server
   \<and> (\<exists>w1 l1 w2 l2 w3 l3.
         gs_pair_stage1 tagged_externals tagged_world sample_server ''1234'' = Inr (w1, l1)
       \<and> gs_pair_stage2 tagged_externals w1 sample_server l1 = Inr (w2, l2)
       \<and> gs_pair_stage3 tagged_externals w2 sample_server l2 = Inr (w3, l3)
       \<and> salted_pin l1 = ''ssssssssssssssss1234''
       \<and> aesKey l2 = ''sha256-key(ssssssssssssssss1234)''
       \<and> hashLength l2 = 32
       \<and> serverResponse l3 = ''0123456789abcdefghijklmnopqrstuv''
       \<and> serverChallenge l3 = ''wxyzABCDEFGHIJKL''
       \<and> challengeRespHash l3 = ''sha256(wxyzABCDEFGHIJKLsigkkkkkkkkkkkkkkkk)'')
   \<and> requests (snd (snd (gs_pair tagged_externals tagged_world sample_server ''1234''))) ! 1 =
        (pair_url False sample_server
           ''clientchallenge=enc(cccccccccccccccc,sha256-key(ssssssssssssssss1234))'',
         HTTPRequestTimeoutLong)
   \<and> requests (snd (snd (gs_pair tagged_externals tagged_world sample_server ''1234''))) ! 2 =
        (pair_url False sample_server
           ''serverchallengeresp=enc(sha256(wxyzABCDEFGHIJKLsigkkkkkkkkkkkkkkkk),sha256-key(ssssssssssssssss1234))'',
         HTTPRequestTimeoutLong)
   \<and> \<not> 7 \<le> serverMajorVersion (sample_server\<lparr>serverMajorVersion := 6\<rparr>)
   \<and> (\<exists>w1 l1 w2 l2 w3 l3.
         gs_pair_stage1 tagged_externals tagged_world (sample_server\<lparr>serverMajorVersion := 6\<rparr>) ''1234''
           = Inr (w1, l1)
       \<and> gs_pair_stage2 tagged_externals w1 (sample_server\<lparr>serverMajorVersion := 6\<rparr>) l1 = Inr (w2, l2)
       \<and> gs_pair_stage3 tagged_externals w2 (sample_server\<lparr>serverMajorVersion := 6\<rparr>) l2 = Inr (w3, l3)
       \<and> aesKey l2 = ''sha1-key(ssssssssssssssss1234)''
       \<and> hashLength l2 = 20
       \<and> serverResponse l3 = ''0123456789abcdefghij''
       \<and> serverChallenge l3 = ''klmnopqrstuvwxyz''
       \<and> challengeRespHash l3 = ''sha1(klmnopqrstuvwxyzsigkkkkkkkkkkkkkkkk)'')
   \<and> requests (snd (snd (gs_pair tagged_externals tagged_world
          (sample_server\<lparr>serverMajorVersion := 6\<rparr>) ''1234''))) ! 2 =
        (pair_url False (sample_server\<lparr>serverMajorVersion := 6\<rparr>)
           ''serverchallengeresp=enc(sha1(klmnopqrstuvwxyzsigkkkkkkkkkkkkkkkk),sha1-key(ssssssssssssssss1234))'',
         HTTPRequestTimeoutLong)"
proof -
  let ?s6 = "sample_server\<lparr>serverMajorVersion := 6\<rparr>"
  note ev = tagged_externals_fields tagged_world_start c_str_def numeral_2_eq_2
  have pre7: "\<not> paired sample_server" "currentGame sample_server = 0"
    and v7: "7 \<le> serverMajorVersion sample_server"
    by (simp_all add: sample_server_def)
  have pre6: "\<not> paired ?s6" "currentGame ?s6 = 0" and v6: "\<not> 7 \<le> serverMajorVersion ?s6"
    by (simp_all add: sample_server_def)
  obtain w1 l1 w2 l2 w3 l3 where
    a: "gs_pair_stage1 tagged_externals tagged_world sample_server ''1234'' = Inr (w1, l1)"
       "gs_pair_stage2 tagged_externals w1 sample_server l1 = Inr (w2, l2)"
       "gs_pair_stage3 tagged_externals w2 sample_server l2 = Inr (w3, l3)"
    and da: "fst (random_bytes 16 w1) = ''cccccccccccccccc''"
       "fst (random_bytes 16 w2) = ''kkkkkkkkkkkkkkkk''"
       "challengeresponse l2 = ''0123456789abcdefghijklmnopqrstuvwxyzABCDEFGHIJKL''"
    using tagged_stages[of sample_server] by blast
  note t7 = gs_pair_hash_choice[OF pre7 a(1), unfolded Let_def]
  have l7: "salted_pin l1 = ''ssssssssssssssss1234''
       \<and> aesKey l2 = ''sha256-key(ssssssssssssssss1234)''
       \<and> hashLength l2 = 32
       \<and> serverResponse l3 = ''0123456789abcdefghijklmnopqrstuv''
       \<and> serverChallenge l3 = ''wxyzABCDEFGHIJKL''
       \<and> challengeRespHash l3 = ''sha256(wxyzABCDEFGHIJKLsigkkkkkkkkkkkkkkkk)''"
    using t7 a v7 by (simp add: ev da)
  have r7: "requests (snd (snd (gs_pair tagged_externals tagged_world sample_server ''1234''))) ! 1 =
        (pair_url False sample_server
           ''clientchallenge=enc(cccccccccccccccc,sha256-key(ssssssssssssssss1234))'',
         HTTPRequestTimeoutLong)
     \<and> requests (snd (snd (gs_pair tagged_externals tagged_world sample_server ''1234''))) ! 2 =
        (pair_url False sample_server
           ''serverchallengeresp=enc(sha256(wxyzABCDEFGHIJKLsigkkkkkkkkkkkkkkkk),sha256-key(ssssssssssssssss1234))'',
         HTTPRequestTimeoutLong)"
    using t7 a v7 by (simp add: ev da)
  obtain x1 k1 x2 k2 x3 k3 where
    b: "gs_pair_stage1 tagged_externals tagged_world ?s6 ''1234'' = Inr (x1, k1)"
       "gs_pair_stage2 tagged_externals x1 ?s6 k1 = Inr (x2, k2)"
       "gs_pair_stage3 tagged_externals x2 ?s6 k2 = Inr (x3, k3)"
    and db: "fst (random_bytes 16 x1) = ''cccccccccccccccc''"
       "fst (random_bytes 16 x2) = ''kkkkkkkkkkkkkkkk''"
       "challengeresponse k2 = ''0123456789abcdefghijklmnopqrstuvwxyzABCDEFGHIJKL''"
    using tagged_stages[of ?s6] by blast
  note t6 = gs_pair_hash_choice[OF pre6 b(1), unfolded Let_def]
  have l6: "aesKey k2 = ''sha1-key(ssssssssssssssss1234)''
       \<and> hashLength k2 = 20
       \<and> serverResponse k3 = ''0123456789abcdefghij''
       \<and> serverChallenge k3 = ''klmnopqrstuvwxyz''
       \<and> challengeRespHash k3 = ''sha1(klmnopqrstuvwxyzsigkkkkkkkkkkkkkkkk)''"
    using t6 b v6 by (simp add: ev db)
  have r6: "requests (snd (snd (gs_pair tagged_externals tagged_world ?s6 ''1234''))) ! 2 =
        (pair_url False ?s6
           ''serverchallengeresp=enc(sha1(klmnopqrstuvwxyzsigkkkkkkkkkkkkkkkk),sha1-key(ssssssssssssssss1234))'',
         HTTPRequestTimeoutLong)"
    using t6 b v6 by (simp add: ev db)
  from pre7 v7 a l7 r7 v6 b l6 r6 show ?thesis by blast
qed

section \<open>Launching a session\<close>

subsection \<open>The 4K gate\<close>

text \<open>
  C9. Called with \<^verbatim>\<open>config.height\<close> at least 2160 for a server without
  \<^verbatim>\<open>supports4K\<close>, \<^verbatim>\<open>gs_start_app\<close> returns \<^verbatim>\<open>GS_NOT_SUPPORTED_4K\<close>. The descriptor and
  the configuration, \<^verbatim>\<open>remoteInputAesKey\<close> included, are returned as they were, and
  of the world only the error string differs: no request is added to the log and no
  random bytes are drawn.
\<close>

theorem gs_start_app_4K_gate:
  assumes "height config \<ge> 2160" and "\<not> supports4K server"
  shows "gs_start_app X w server config appId sops localaudio gamepad_mask =
     (GS_NOT_SUPPORTED_4K X, server, config, w\<lparr>gs_error_text := ''4K not supported''\<rparr>)"
  using assms by (simp add: gs_start_app_def gs_set_error_def)

theorem gs_start_app_4K_gate_witness:
  "2160 \<le> height sample_config \<and> \<not> supports4K sample_server
   \<and> gs_start_app sample_externals sample_world sample_server sample_config 42 True False 1 =
       (GS_NOT_SUPPORTED_4K sample_externals, sample_server, sample_config,
        sample_world\<lparr>gs_error_text := ''4K not supported''\<rparr>)
   \<and> requests (sample_world\<lparr>gs_error_text := ''4K not supported''\<rparr>) = requests sample_world"
proof -
  have h: "2160 \<le> height sample_config" and k: "\<not> supports4K sample_server"
    by (simp_all add: sample_config_def sample_server_def)
  from h k gs_start_app_4K_gate[OF h k, of sample_externals sample_world 42 True False 1]
  show ?thesis by simp
qed

subsection \<open>\<^verbatim>\<open>currentGame\<close> after the request\<close>

lemma fmt_d_0: "fmt_d 0 = ''0''"
  by (simp add: fmt_d_def fmt_u.simps)

lemma launch_text_key:
  "launch_text X server (config\<lparr>remoteInputAesKey := k\<rparr>) appId sops localaudio gamepad_mask rand rikeyid =
   launch_text X server config appId sops localaudio gamepad_mask rand rikeyid"
  by (simp add: launch_text_def)

lemma start_app_url_key:
  "start_app_url X server (config\<lparr>remoteInputAesKey := k\<rparr>) appId sops localaudio gamepad_mask rand rikeyid =
   start_app_url X server config appId sops localaudio gamepad_mask rand rikeyid"
  by (simp add: start_app_url_def launch_text_key)

lemma start_app_response_frame:
  "requests (snd (snd (start_app_response X w server data))) = requests w
   \<and> currentGame (fst (snd (start_app_response X w server data))) = currentGame server"
  by (simp add: start_app_response_def xml_status_def gs_set_error_def Let_def split: prod.splits)

lemma start_app_response_status:
  assumes "status_code X data \<noteq> ''200''" and "GS_ERROR X \<noteq> GS_OK X"
  shows "start_app_response X w server data = (1, server, gs_set_error (status_message X data) w)"
  using assms by (simp add: start_app_response_def xml_status_def)

lemma start_app_response_zero:
  assumes "status_code X data = ''200''" and "xml_text X data ''gamesession'' = Some ''0''"
  shows "start_app_response X w server data = (GS_FAILED X, server, w)"
  using assms by (simp add: start_app_response_def xml_status_def xml_search_def)

text \<open>Past the 4K gate: one request, then the response is read only if it succeeded.\<close>

lemma gs_start_app_unfold:
  assumes "\<not> (2160 \<le> height config \<and> \<not> supports4K server)"
    and "network w (length (requests w))
        (start_app_url X server config appId sops localaudio gamepad_mask (fst (random_bytes 16 w)) 0)
        = (rc, data)"
  shows "gs_start_app X w server config appId sops localaudio gamepad_mask =
     (let url = start_app_url X server config appId sops localaudio gamepad_mask (fst (random_bytes 16 w)) 0;
          config1 = config\<lparr>remoteInputAesKey := take 16 (fst (random_bytes 16 w))\<rparr>;
          w1 = w\<lparr>random_used := random_used w + 16,
                 requests := requests w @ [(url, HTTPRequestTimeoutLong)]\<rparr>
      in if rc = GS_OK X
         then (fst (start_app_response X w1 (server\<lparr>currentGame := appId\<rparr>) data),
               fst (snd (start_app_response X w1 (server\<lparr>currentGame := appId\<rparr>) data)),
               config1,
               snd (snd (start_app_response X w1 (server\<lparr>currentGame := appId\<rparr>) data)))
         else (rc, server, config1, w1))"
proof -
  have gate: "(2160 \<le> height config \<and> \<not> supports4K server) = False" using assms(1) by blast
  show ?thesis using assms(2)
    by (simp add: gs_start_app_def gate random_bytes_def http_request_def start_app_url_key Let_def
        split: prod.splits)
qed

text \<open>
  C7. Past the 4K gate \<^verbatim>\<open>gs_start_app\<close> issues one request. If the request returns
  \<^verbatim>\<open>GS_OK\<close>, \<^verbatim>\<open>server.currentGame\<close> is \<^verbatim>\<open>appId\<close> when the function returns, whatever
  the response holds: also when its status is not 200 (for result codes with
  \<^verbatim>\<open>GS_ERROR\<close> different from \<^verbatim>\<open>GS_OK\<close>, nothing else of the descriptor changes), and
  when its \<^verbatim>\<open>gamesession\<close> is "0", where the result is \<^verbatim>\<open>GS_FAILED\<close>. If the request
  fails, its code is returned and the descriptor is as it was.
\<close>

theorem gs_start_app_currentGame:
  assumes gate: "\<not> (2160 \<le> height config \<and> \<not> supports4K server)"
    and reply: "network w (length (requests w))
        (start_app_url X server config appId sops localaudio gamepad_mask (fst (random_bytes 16 w)) 0)
        = (rc, data)"
  shows "(rc = GS_OK X \<longrightarrow>
            currentGame (fst (snd (gs_start_app X w server config appId sops localaudio gamepad_mask))) = appId)
    \<and> (rc = GS_OK X \<and> status_code X data \<noteq> ''200'' \<and> GS_ERROR X \<noteq> GS_OK X \<longrightarrow>
            fst (snd (gs_start_app X w server config appId sops localaudio gamepad_mask))
              = server\<lparr>currentGame := appId\<rparr>)
    \<and> (rc = GS_OK X \<and> status_code X data = ''200'' \<and> xml_text X data ''gamesession'' = Some ''0'' \<longrightarrow>
            fst (gs_start_app X w server config appId sops localaudio gamepad_mask) = GS_FAILED X
          \<and> fst (snd (gs_start_app X w server config appId sops localaudio gamepad_mask))
              = server\<lparr>currentGame := appId\<rparr>)
    \<and> (rc \<noteq> GS_OK X \<longrightarrow>
            fst (gs_start_app X w server config appId sops localaudio gamepad_mask) = rc
          \<and> fst (snd (gs_start_app X w server config appId sops localaudio gamepad_mask)) = server)"
proof (intro conjI impI)
  note u = gs_start_app_unfold[OF gate reply]
  {
    assume "rc = GS_OK X"
    then show "currentGame (fst (snd (gs_start_app X w server config appId sops localaudio gamepad_mask))) = appId"
      by (simp add: u Let_def start_app_response_frame)
  }
  {
    assume "rc = GS_OK X \<and> status_code X data \<noteq> ''200'' \<and> GS_ERROR X \<noteq> GS_OK X"
    then show "fst (snd (gs_start_app X w server config appId sops localaudio gamepad_mask))
              = server\<lparr>currentGame := appId\<rparr>"
      by (simp add: u Let_def start_app_response_status)
  }
  {
    assume a: "rc = GS_OK X \<and> status_code X data = ''200'' \<and> xml_text X data ''gamesession'' = Some ''0''"
    then show "fst (gs_start_app X w server config appId sops localaudio gamepad_mask) = GS_FAILED X"
      by (simp add: u Let_def start_app_response_zero)
    from a show "fst (snd (gs_start_app X w server config appId sops localaudio gamepad_mask))
              = server\<lparr>currentGame := appId\<rparr>"
      by (simp add: u Let_def start_app_response_zero)
  }
  {
    assume a: "rc \<noteq> GS_OK X"
    then show "fst (gs_start_app X w server config appId sops localaudio gamepad_mask) = rc"
      by (simp add: u Let_def)
    from a show "fst (snd (gs_start_app X w server config appId sops localaudio gamepad_mask)) = server"
      by (simp add: u Let_def)
  }
qed

theorem gs_start_app_currentGame_witness:
  "\<not> (2160 \<le> height sample_config \<and> \<not> supports4K (sample_server\<lparr>supports4K := True\<rparr>))
   \<and> fst (gs_start_app zero_session_externals sample_world (sample_server\<lparr>supports4K := True\<rparr>)
            sample_config 42 True False 1) = GS_FAILED zero_session_externals
   \<and> fst (snd (gs_start_app zero_session_externals sample_world (sample_server\<lparr>supports4K := True\<rparr>)
            sample_config 42 True False 1)) = sample_server\<lparr>supports4K := True, currentGame := 42\<rparr>
   \<and> fst (snd (gs_start_app sample_externals error_status_world (sample_server\<lparr>supports4K := True\<rparr>)
            sample_config 42 True False 1)) = sample_server\<lparr>supports4K := True, currentGame := 42\<rparr>
   \<and> fst (gs_start_app sample_externals offline_world (sample_server\<lparr>supports4K := True\<rparr>)
            sample_config 42 True False 1) = - 5
   \<and> fst (snd (gs_start_app sample_externals offline_world (sample_server\<lparr>supports4K := True\<rparr>)
            sample_config 42 True False 1)) = sample_server\<lparr>supports4K := True\<rparr>"
proof -
  let ?s = "sample_server\<lparr>supports4K := True\<rparr>"
  have gate: "\<not> (2160 \<le> height sample_config \<and> \<not> supports4K ?s)" by simp
  have r1: "network sample_world (length (requests sample_world)) url = (0, ''200'')" for url
    by (simp add: sample_world_def)
  have r2: "network error_status_world (length (requests error_status_world)) url = (0, ''404 Not Found'')" for url
    by (simp add: error_status_world_def)
  have r3: "network offline_world (length (requests offline_world)) url = (- 5, [])" for url
    by (simp add: offline_world_def)
  have z: "GS_OK zero_session_externals = 0" "status_code zero_session_externals ''200'' = ''200''"
    "xml_text zero_session_externals ''200'' ''gamesession'' = Some ''0''"
    by (simp_all add: zero_session_externals_def sample_externals_def)
  have e: "GS_OK sample_externals = 0" "status_code sample_externals ''404 Not Found'' \<noteq> ''200''"
    "GS_ERROR sample_externals \<noteq> GS_OK sample_externals"
    by (simp_all add: sample_externals_def)
  note a = gs_start_app_currentGame[OF gate r1, of zero_session_externals 42 True False 1]
  note b = gs_start_app_currentGame[OF gate r2, of sample_externals 42 True False 1]
  note c = gs_start_app_currentGame[OF gate r3, of sample_externals 42 True False 1]
  from a z have a': "fst (gs_start_app zero_session_externals sample_world ?s sample_config 42 True False 1)
        = GS_FAILED zero_session_externals
      \<and> fst (snd (gs_start_app zero_session_externals sample_world ?s sample_config 42 True False 1))
        = ?s\<lparr>currentGame := 42\<rparr>"
    by simp
  from b e have b': "fst (snd (gs_start_app sample_externals error_status_world ?s sample_config 42 True False 1))
        = ?s\<lparr>currentGame := 42\<rparr>"
    by simp
  from c e have c': "fst (gs_start_app sample_externals offline_world ?s sample_config 42 True False 1) = - 5
      \<and> fst (snd (gs_start_app sample_externals offline_world ?s sample_config 42 True False 1)) = ?s"
    by simp
  from gate a' b' c' show ?thesis by simp
qed

subsection \<open>The URL of the request\<close>

lemma gs_start_app_request:
  assumes "\<not> (2160 \<le> height config \<and> \<not> supports4K server)"
  shows "requests (snd (snd (snd (gs_start_app X w server config appId sops localaudio gamepad_mask)))) =
     requests w @
       [(start_app_url X server config appId sops localaudio gamepad_mask (fst (random_bytes 16 w)) 0,
         HTTPRequestTimeoutLong)]"
proof -
  obtain rc data where reply: "network w (length (requests w))
        (start_app_url X server config appId sops localaudio gamepad_mask (fst (random_bytes 16 w)) 0)
        = (rc, data)"
    by (cases "network w (length (requests w))
        (start_app_url X server config appId sops localaudio gamepad_mask (fst (random_bytes 16 w)) 0)") auto
  show ?thesis
    by (simp add: gs_start_app_unfold[OF assms reply] Let_def start_app_response_frame)
qed

lemma sample_random: "fst (random_bytes 16 sample_world) = ''rrrrrrrrrrrrrrrr''"
  by (simp add: random_bytes_def sample_world_def upt_conv_Cons)

lemma sample_launch_text:
  "launch_text sample_externals (sample_server\<lparr>supports4K := True\<rparr>) sample_config 42 True False 1
     ''rrrrrrrrrrrrrrrr'' 0 =
   ''https://192.168.1.2:47984/launch?uniqueid=0123456789ABCDEF&appid=42&mode=3840x2160x60&additionalStates=1&sops=1&rikey=rrrrrrrrrrrrrrrr&rikeyid=0&localAudioPlayMode=0&surroundAudioInfo=196610&remoteControllersBitmap=1&gcmap=1&corever=1''"
  by (simp add: launch_text_def sample_externals_def sample_server_def sample_config_def
      c_str_def unique_id_def fmt_d_def fmt_u.simps Let_def)

lemma sample_resume_text:
  "resume_text sample_externals (sample_server\<lparr>supports4K := True, currentGame := 5\<rparr>)
     ''rrrrrrrrrrrrrrrr'' 0 =
   ''https://192.168.1.2:47984/resume?uniqueid=0123456789ABCDEF&rikey=rrrrrrrrrrrrrrrr&rikeyid=0&corever=1''"
  by (simp add: resume_text_def sample_externals_def sample_server_def
      c_str_def unique_id_def fmt_d_def fmt_u.simps)

lemma fmt_d_of_bool: "fmt_d (of_bool b) = (if b then ''1'' else ''0'')"
  by (simp add: fmt_d_def fmt_u.simps)

lemma launch_text_parts:
  "launch_text X server config appId sops localaudio gamepad_mask rand 0 =
     (''https://'' @ c_str (serverInfo_address server) @ '':'' @ fmt_u (unat (httpsPort server))
       @ ''/launch?uniqueid='' @ unique_id @ ''&appid='' @ fmt_d appId @ ''&mode=''
       @ fmt_d (width config) @ ''x'' @ fmt_d (height config) @ ''x''
       @ fmt_d (if sops \<and> 60 < fps config then 60 else fps config))
     @ (''&additionalStates=1&sops='' @ (if sops then ''1'' else ''0'') @ ''&rikey=''
       @ c_str (hex X rand) @ ''&rikeyid=0'' @ ''&localAudioPlayMode=''
       @ (if localaudio then ''1'' else ''0'') @ ''&surroundAudioInfo=''
       @ fmt_d (if audioConfiguration config = AUDIO_CONFIGURATION_STEREO X then 196610 else 16515078)
       @ ''&remoteControllersBitmap='' @ fmt_d gamepad_mask @ ''&gcmap='' @ fmt_d gamepad_mask
       @ c_str (LiGetLaunchUrlQueryParameters X))"
  by (simp add: launch_text_def Let_def fmt_d_0 fmt_d_of_bool push_bit_eq_mult)

lemma resume_text_parts:
  "resume_text X server rand 0 =
     (''https://'' @ c_str (serverInfo_address server) @ '':'' @ fmt_u (unat (httpsPort server))
       @ ''/resume?uniqueid='' @ unique_id @ ''&rikey='' @ c_str (hex X rand) @ ''&rikeyid=0'')
     @ c_str (LiGetLaunchUrlQueryParameters X)"
  by (simp add: resume_text_def fmt_d_0)

text \<open>
  C6. Past the 4K gate the one request is for the first 4095 bytes of the formatted
  text (the buffer has 4096). With \<^verbatim>\<open>server.currentGame\<close> 0 the text is, after the host
  and the port, \<^verbatim>\<open>/launch?uniqueid=...&appid=\<close>, the \<^verbatim>\<open>appId\<close>, \<^verbatim>\<open>&mode=\<close> and width,
  height and frame rate separated by \<^verbatim>\<open>x\<close>, where the frame rate is 60 if \<^verbatim>\<open>sops\<close> is set
  and \<^verbatim>\<open>config.fps\<close> exceeds 60, and \<^verbatim>\<open>config.fps\<close> otherwise, followed by the other
  parameters; if the text up to the end of the mode is at most 4095 bytes long, the URL
  requested begins with all of it. With \<^verbatim>\<open>server.currentGame\<close> not 0 the text is the
  \<^verbatim>\<open>/resume\<close> URL with \<^verbatim>\<open>rikey\<close> and \<^verbatim>\<open>rikeyid=0\<close>; if the text up to \<^verbatim>\<open>rikeyid=0\<close> is
  at most 4095 bytes long, the URL requested begins with all of it; and the resume
  request does not depend on \<^verbatim>\<open>appId\<close>, whatever the length.
\<close>

theorem gs_start_app_url:
  assumes gate: "\<not> (2160 \<le> height config \<and> \<not> supports4K server)"
  shows
    "let rand = fst (random_bytes 16 w);
         issued = requests (snd (snd (snd
                    (gs_start_app X w server config appId sops localaudio gamepad_mask))));
         host = ''https://'' @ c_str (serverInfo_address server) @ '':''
           @ fmt_u (unat (httpsPort server));
         launch = host @ ''/launch?uniqueid='' @ unique_id @ ''&appid='' @ fmt_d appId
           @ ''&mode='' @ fmt_d (width config) @ ''x'' @ fmt_d (height config) @ ''x''
           @ fmt_d (if sops \<and> 60 < fps config then 60 else fps config);
         launch_rest = ''&additionalStates=1&sops='' @ (if sops then ''1'' else ''0'')
           @ ''&rikey='' @ c_str (hex X rand) @ ''&rikeyid=0'' @ ''&localAudioPlayMode=''
           @ (if localaudio then ''1'' else ''0'') @ ''&surroundAudioInfo=''
           @ fmt_d (if audioConfiguration config = AUDIO_CONFIGURATION_STEREO X then 196610 else 16515078)
           @ ''&remoteControllersBitmap='' @ fmt_d gamepad_mask @ ''&gcmap=''
           @ fmt_d gamepad_mask @ c_str (LiGetLaunchUrlQueryParameters X);
         resume = host @ ''/resume?uniqueid='' @ unique_id @ ''&rikey='' @ c_str (hex X rand)
           @ ''&rikeyid=0'';
         resume_rest = c_str (LiGetLaunchUrlQueryParameters X)
     in (currentGame server = 0 \<longrightarrow>
           issued = requests w @ [(take 4095 (launch @ launch_rest), HTTPRequestTimeoutLong)]
         \<and> (length launch \<le> 4095 \<longrightarrow>
              issued = requests w @
                [(launch @ take (4095 - length launch) launch_rest, HTTPRequestTimeoutLong)]))
      \<and> (currentGame server \<noteq> 0 \<longrightarrow>
           issued = requests w @ [(take 4095 (resume @ resume_rest), HTTPRequestTimeoutLong)]
         \<and> (length resume \<le> 4095 \<longrightarrow>
              issued = requests w @
                [(resume @ take (4095 - length resume) resume_rest, HTTPRequestTimeoutLong)])
         \<and> (\<forall>appId'. requests (snd (snd (snd
                (gs_start_app X w server config appId' sops localaudio gamepad_mask)))) = issued))"
proof -
  define issued where "issued = requests (snd (snd (snd
                    (gs_start_app X w server config appId sops localaudio gamepad_mask))))"
  define P where "P = ''https://'' @ c_str (serverInfo_address server) @ '':''
    @ fmt_u (unat (httpsPort server)) @ ''/launch?uniqueid='' @ unique_id @ ''&appid=''
    @ fmt_d appId @ ''&mode='' @ fmt_d (width config) @ ''x'' @ fmt_d (height config) @ ''x''
    @ fmt_d (if sops \<and> 60 < fps config then 60 else fps config)"
  define T where "T = ''&additionalStates=1&sops='' @ (if sops then ''1'' else ''0'')
    @ ''&rikey='' @ c_str (hex X (fst (random_bytes 16 w))) @ ''&rikeyid=0''
    @ ''&localAudioPlayMode='' @ (if localaudio then ''1'' else ''0'') @ ''&surroundAudioInfo=''
    @ fmt_d (if audioConfiguration config = AUDIO_CONFIGURATION_STEREO X then 196610 else 16515078)
    @ ''&remoteControllersBitmap='' @ fmt_d gamepad_mask @ ''&gcmap='' @ fmt_d gamepad_mask
    @ c_str (LiGetLaunchUrlQueryParameters X)"
  define Q where "Q = ''https://'' @ c_str (serverInfo_address server) @ '':''
    @ fmt_u (unat (httpsPort server)) @ ''/resume?uniqueid='' @ unique_id @ ''&rikey=''
    @ c_str (hex X (fst (random_bytes 16 w))) @ ''&rikeyid=0''"
  define U where "U = c_str (LiGetLaunchUrlQueryParameters X)"
  note r = gs_start_app_request[OF gate, of X w]
  have lt: "launch_text X server config appId sops localaudio gamepad_mask (fst (random_bytes 16 w)) 0 = P
    @ T"
    unfolding P_def T_def by (rule launch_text_parts)
  have rt: "resume_text X server (fst (random_bytes 16 w)) 0 = Q @ U"
    unfolding Q_def U_def by (rule resume_text_parts)
  have a: "issued = requests w @ [(take 4095 (P @ T), HTTPRequestTimeoutLong)]"
    if "currentGame server = 0"
    using that unfolding issued_def r by (simp add: start_app_url_def snprintf_url_def lt)
  have b: "issued = requests w @ [(P @ take (4095 - length P) T, HTTPRequestTimeoutLong)]"
    if "currentGame server = 0" "length P \<le> 4095"
    using a[OF that(1)] that(2) by simp
  have c: "issued = requests w @ [(take 4095 (Q @ U), HTTPRequestTimeoutLong)]"
    if "currentGame server \<noteq> 0"
    using that unfolding issued_def r by (simp add: start_app_url_def snprintf_url_def rt)
  have d: "issued = requests w @ [(Q @ take (4095 - length Q) U, HTTPRequestTimeoutLong)]"
    if "currentGame server \<noteq> 0" "length Q \<le> 4095"
    using c[OF that(1)] that(2) by simp
  have e: "requests (snd (snd (snd
                (gs_start_app X w server config appId' sops localaudio gamepad_mask)))) = issued"
    if "currentGame server \<noteq> 0" for appId'
    using that unfolding issued_def r by (simp add: start_app_url_def)
  have "(currentGame server = 0 \<longrightarrow>
           issued = requests w @ [(take 4095 (P @ T), HTTPRequestTimeoutLong)]
         \<and> (length P \<le> 4095 \<longrightarrow>
              issued = requests w @ [(P @ take (4095 - length P) T, HTTPRequestTimeoutLong)]))
      \<and> (currentGame server \<noteq> 0 \<longrightarrow>
           issued = requests w @ [(take 4095 (Q @ U), HTTPRequestTimeoutLong)]
         \<and> (length Q \<le> 4095 \<longrightarrow>
              issued = requests w @ [(Q @ take (4095 - length Q) U, HTTPRequestTimeoutLong)])
         \<and> (\<forall>appId'. requests (snd (snd (snd
                (gs_start_app X w server config appId' sops localaudio gamepad_mask)))) = issued))"
    using a b c d e by blast
  then show ?thesis
    unfolding Let_def issued_def P_def T_def Q_def U_def by (simp only: append_assoc)
qed

lemma medium_address_prefix:
  "c_str (serverInfo_address medium_address_server) = replicate 4000 (CHR ''a'')"
  "fmt_u (unat (httpsPort medium_address_server)) = ''47984''"
  "currentGame medium_address_server = 0"
  "supports4K medium_address_server"
  by (simp_all add: medium_address_server_def sample_server_def c_str_def fmt_u.simps)

theorem gs_start_app_url_witness:
  "\<not> (2160 \<le> height sample_config \<and> \<not> supports4K (sample_server\<lparr>supports4K := True\<rparr>))
   \<and> currentGame (sample_server\<lparr>supports4K := True\<rparr>) = 0
   \<and> requests (snd (snd (snd
         (gs_start_app sample_externals sample_world (sample_server\<lparr>supports4K := True\<rparr>)
            sample_config 42 True False 1)))) =
        [(''https://192.168.1.2:47984/launch?uniqueid=0123456789ABCDEF&appid=42&mode=3840x2160x60&additionalStates=1&sops=1&rikey=rrrrrrrrrrrrrrrr&rikeyid=0&localAudioPlayMode=0&surroundAudioInfo=196610&remoteControllersBitmap=1&gcmap=1&corever=1'',
          HTTPRequestTimeoutLong)]
   \<and> requests (snd (snd (snd
         (gs_start_app sample_externals sample_world (sample_server\<lparr>supports4K := True\<rparr>)
            (sample_config\<lparr>fps := 30\<rparr>) 42 True False 1)))) =
        [(''https://192.168.1.2:47984/launch?uniqueid=0123456789ABCDEF&appid=42&mode=3840x2160x30&additionalStates=1&sops=1&rikey=rrrrrrrrrrrrrrrr&rikeyid=0&localAudioPlayMode=0&surroundAudioInfo=196610&remoteControllersBitmap=1&gcmap=1&corever=1'',
          HTTPRequestTimeoutLong)]
   \<and> requests (snd (snd (snd
         (gs_start_app sample_externals sample_world (sample_server\<lparr>supports4K := True\<rparr>)
            sample_config 42 False False 1)))) =
        [(''https://192.168.1.2:47984/launch?uniqueid=0123456789ABCDEF&appid=42&mode=3840x2160x120&additionalStates=1&sops=0&rikey=rrrrrrrrrrrrrrrr&rikeyid=0&localAudioPlayMode=0&surroundAudioInfo=196610&remoteControllersBitmap=1&gcmap=1&corever=1'',
          HTTPRequestTimeoutLong)]
   \<and> currentGame (sample_server\<lparr>supports4K := True, currentGame := 5\<rparr>) \<noteq> 0
   \<and> requests (snd (snd (snd
         (gs_start_app sample_externals sample_world (sample_server\<lparr>supports4K := True, currentGame := 5\<rparr>)
            sample_config 42 True False 1)))) =
        [(''https://192.168.1.2:47984/resume?uniqueid=0123456789ABCDEF&rikey=rrrrrrrrrrrrrrrr&rikeyid=0&corever=1'',
          HTTPRequestTimeoutLong)]
   \<and> requests (snd (snd (snd
         (gs_start_app sample_externals sample_world (sample_server\<lparr>supports4K := True, currentGame := 5\<rparr>)
            sample_config 7 True False 1)))) =
        [(''https://192.168.1.2:47984/resume?uniqueid=0123456789ABCDEF&rikey=rrrrrrrrrrrrrrrr&rikeyid=0&corever=1'',
          HTTPRequestTimeoutLong)]
   \<and> currentGame medium_address_server = 0
   \<and> length (''https://'' @ replicate 4000 (CHR ''a'')
        @ '':47984/launch?uniqueid=0123456789ABCDEF&appid=42&mode=3840x2160x60'') = 4074
   \<and> requests (snd (snd (snd
         (gs_start_app sample_externals sample_world medium_address_server sample_config 42 True False 1)))) =
        [(''https://'' @ replicate 4000 (CHR ''a'')
            @ '':47984/launch?uniqueid=0123456789ABCDEF&appid=42&mode=3840x2160x60''
            @ ''&additionalStates=1&s'',
          HTTPRequestTimeoutLong)]"
proof -
  let ?s = "sample_server\<lparr>supports4K := True\<rparr>"
  let ?t = "sample_server\<lparr>supports4K := True, currentGame := 5\<rparr>"
  let ?m = "medium_address_server"
  have gs: "\<not> (2160 \<le> height sample_config \<and> \<not> supports4K ?s)" by simp
  have gs30: "\<not> (2160 \<le> height (sample_config\<lparr>fps := 30\<rparr>) \<and> \<not> supports4K ?s)" by simp
  have gt: "\<not> (2160 \<le> height sample_config \<and> \<not> supports4K ?t)" by simp
  have gm: "\<not> (2160 \<le> height sample_config \<and> \<not> supports4K ?m)"
    by (simp add: medium_address_prefix)
  have cs: "currentGame ?s = 0" by (simp add: sample_server_def)
  have ct: "currentGame ?t \<noteq> 0" by simp
  have empty: "requests sample_world = []" by (simp add: sample_world_def)
  have f: "fmt_u (unat (httpsPort sample_server)) = ''47984''" "fmt_d 42 = ''42''"
    "fmt_d (width sample_config) = ''3840''" "fmt_d (height sample_config) = ''2160''"
    "fmt_d 60 = ''60''" "fmt_d 30 = ''30''" "fmt_d 120 = ''120''" "fmt_d 1 = ''1''"
    "fmt_d 196610 = ''196610''"
    "fps sample_config = 120" "c_str (serverInfo_address sample_server) = ''192.168.1.2''"
    "audioConfiguration sample_config = AUDIO_CONFIGURATION_STEREO sample_externals"
    "c_str (LiGetLaunchUrlQueryParameters sample_externals) = ''&corever=1''"
    "c_str (hex sample_externals ''rrrrrrrrrrrrrrrr'') = ''rrrrrrrrrrrrrrrr''"
    by (simp_all add: sample_server_def sample_config_def sample_externals_def
        fmt_d_def fmt_u.simps c_str_def)
  note a = gs_start_app_url[OF gs, where X = sample_externals and w = sample_world
      and appId = 42 and sops = True and localaudio = False and gamepad_mask = 1,
      unfolded Let_def]
  from a cs have launch: "requests (snd (snd (snd
         (gs_start_app sample_externals sample_world ?s sample_config 42 True False 1)))) =
        [(''https://192.168.1.2:47984/launch?uniqueid=0123456789ABCDEF&appid=42&mode=3840x2160x60&additionalStates=1&sops=1&rikey=rrrrrrrrrrrrrrrr&rikeyid=0&localAudioPlayMode=0&surroundAudioInfo=196610&remoteControllersBitmap=1&gcmap=1&corever=1'',
          HTTPRequestTimeoutLong)]"
    by (simp add: empty f unique_id_def sample_random)
  note a30 = gs_start_app_url[OF gs30, where X = sample_externals and w = sample_world
      and appId = 42 and sops = True and localaudio = False and gamepad_mask = 1,
      unfolded Let_def]
  from a30 cs have launch30: "requests (snd (snd (snd
         (gs_start_app sample_externals sample_world ?s (sample_config\<lparr>fps := 30\<rparr>) 42 True False 1)))) =
        [(''https://192.168.1.2:47984/launch?uniqueid=0123456789ABCDEF&appid=42&mode=3840x2160x30&additionalStates=1&sops=1&rikey=rrrrrrrrrrrrrrrr&rikeyid=0&localAudioPlayMode=0&surroundAudioInfo=196610&remoteControllersBitmap=1&gcmap=1&corever=1'',
          HTTPRequestTimeoutLong)]"
    by (simp add: empty f unique_id_def sample_random)
  note an = gs_start_app_url[OF gs, where X = sample_externals and w = sample_world
      and appId = 42 and sops = False and localaudio = False and gamepad_mask = 1,
      unfolded Let_def]
  from an cs have launchn: "requests (snd (snd (snd
         (gs_start_app sample_externals sample_world ?s sample_config 42 False False 1)))) =
        [(''https://192.168.1.2:47984/launch?uniqueid=0123456789ABCDEF&appid=42&mode=3840x2160x120&additionalStates=1&sops=0&rikey=rrrrrrrrrrrrrrrr&rikeyid=0&localAudioPlayMode=0&surroundAudioInfo=196610&remoteControllersBitmap=1&gcmap=1&corever=1'',
          HTTPRequestTimeoutLong)]"
    by (simp add: empty f unique_id_def sample_random)
  note b = gs_start_app_url[OF gt, where X = sample_externals and w = sample_world
      and appId = 42 and sops = True and localaudio = False and gamepad_mask = 1,
      unfolded Let_def]
  from b ct have resume: "requests (snd (snd (snd
         (gs_start_app sample_externals sample_world ?t sample_config 42 True False 1)))) =
        [(''https://192.168.1.2:47984/resume?uniqueid=0123456789ABCDEF&rikey=rrrrrrrrrrrrrrrr&rikeyid=0&corever=1'',
          HTTPRequestTimeoutLong)]"
    by (simp add: empty f unique_id_def sample_random)
  from b ct have "\<forall>appId'. requests (snd (snd (snd
         (gs_start_app sample_externals sample_world ?t sample_config appId' True False 1)))) =
       requests (snd (snd (snd
         (gs_start_app sample_externals sample_world ?t sample_config 42 True False 1))))"
    by blast
  then have resume7: "requests (snd (snd (snd
         (gs_start_app sample_externals sample_world ?t sample_config 7 True False 1)))) =
        [(''https://192.168.1.2:47984/resume?uniqueid=0123456789ABCDEF&rikey=rrrrrrrrrrrrrrrr&rikeyid=0&corever=1'',
          HTTPRequestTimeoutLong)]"
    by (simp add: resume)
  have len: "length (''https://'' @ replicate 4000 (CHR ''a'')
        @ '':47984/launch?uniqueid=0123456789ABCDEF&appid=42&mode=3840x2160x60'') = 4074"
    by simp
  note m = gs_start_app_url[OF gm, where X = sample_externals and w = sample_world
      and appId = 42 and sops = True and localaudio = False and gamepad_mask = 1,
      unfolded Let_def]
  from m have medium: "requests (snd (snd (snd
         (gs_start_app sample_externals sample_world ?m sample_config 42 True False 1)))) =
        [(''https://'' @ replicate 4000 (CHR ''a'')
            @ '':47984/launch?uniqueid=0123456789ABCDEF&appid=42&mode=3840x2160x60''
            @ ''&additionalStates=1&s'',
          HTTPRequestTimeoutLong)]"
    by (simp add: empty f medium_address_prefix unique_id_def sample_random)
  from gs cs launch launch30 launchn ct resume resume7 medium_address_prefix(3) len medium
  show ?thesis by blast
qed

text \<open>
  When the text up to the mode does not fit, the URL need not contain it: for an
  address of 4095 bytes the URL is cut inside the address, and the text requested holds
  no \<^verbatim>\<open>/launch\<close> (it has no letter l at all), no \<^verbatim>\<open>appid\<close> and no mode.
\<close>

lemma long_address_url:
  "start_app_url sample_externals long_address_server sample_config 42 True False 1 rand 0 =
     ''https://'' @ replicate 4087 (CHR ''a'')"
  by (simp add: start_app_url_def launch_text_def snprintf_url_def long_address_server_def
      sample_server_def c_str_def Let_def)

theorem gs_start_app_long_address_counterexample:
  "currentGame long_address_server = 0
   \<and> supports4K long_address_server
   \<and> requests (snd (snd (snd
        (gs_start_app sample_externals sample_world long_address_server sample_config 42 True False 1)))) =
       [(''https://'' @ replicate 4087 (CHR ''a''), HTTPRequestTimeoutLong)]
   \<and> CHR ''l'' \<notin> set (''https://'' @ replicate 4087 (CHR ''a''))"
proof -
  have gate: "\<not> (2160 \<le> height sample_config \<and> \<not> supports4K long_address_server)"
    by (simp add: long_address_server_def)
  have empty: "requests sample_world = []" by (simp add: sample_world_def)
  from gs_start_app_request[OF gate, of sample_externals sample_world 42 True False 1]
  show ?thesis
    by (simp add: long_address_url empty) (simp add: long_address_server_def sample_server_def)
qed

end
